theory Spec2Isabelle
  imports Main "HOL-Library.Log_Nat" "HOL-Library.Multiset" "HOL-Library.Sublist"
begin

section \<open>Go values used by the handlers\<close>

subsection \<open>float64\<close>

text \<open>
  Go's \<^verbatim>\<open>float64\<close> is the IEEE-754 binary64 format. Every finite binary64 value is an
  integer multiple of \<open>2 ^ -1074\<close> (the smallest subnormal), so a finite value is kept as
  its sign bit and its magnitude counted in that unit: \<open>Fin s m\<close> stands for
  \<open>(-1) ^ s * m * 2 ^ -1074\<close>. \<open>Fin False 0\<close> is \<open>+0.0\<close>, \<open>Fin True 0\<close> is \<open>-0.0\<close>.
  All NaN bit patterns are one value. In \<open>Infinity s\<close> and \<open>Fin s m\<close> the flag \<open>s\<close> is the
  sign bit (\<open>True\<close> for negative).
\<close>

datatype float64 = NaN | Infinity bool | Fin bool nat

definition f64_zero :: float64 where
  "f64_zero = Fin False 0"

text \<open>\<open>f64_frac k e\<close> is the non-negative value \<open>k / 2 ^ e\<close> (for \<open>e \<le> 1074\<close>).\<close>

definition f64_frac :: "nat \<Rightarrow> nat \<Rightarrow> float64" where
  "f64_frac k e = Fin False (k * 2 ^ (1074 - e))"

text \<open>
  Rounding of an exact magnitude to 53 significant bits, ties to even (the default
  and, in Go, the only rounding mode). \<open>floorlog 2 m\<close> is the bit length of \<open>m\<close>.
  Magnitudes of at most 53 bits are subnormals or normals of the lowest exponent and
  are exact.
\<close>

definition round_nearest_even :: "nat \<Rightarrow> nat" where
  "round_nearest_even m =
     (let b = floorlog 2 m in
      if b \<le> 53 then m
      else
        let s = b - 53;
            q = m div 2 ^ s;
            r = m mod 2 ^ s;
            h = 2 ^ (s - 1)
        in (if h < r \<or> (r = h \<and> odd q) then q + 1 else q) * 2 ^ s)"

text \<open>
  The largest finite binary64 value is \<open>(2 ^ 53 - 1) * 2 ^ 971\<close>, that is
  \<open>(2 ^ 53 - 1) * 2 ^ 2045\<close> units; a rounded magnitude of \<open>2 ^ 2098\<close> units
  (\<open>2 ^ 1024\<close>) or more overflows to an infinity.
\<close>

definition round_f64 :: "bool \<Rightarrow> nat \<Rightarrow> float64" where
  "round_f64 s m =
     (let r = round_nearest_even m in if 2 ^ 2098 \<le> r then Infinity s else Fin s r)"

text \<open>
  The \<^verbatim>\<open>+\<close> of two \<^verbatim>\<open>float64\<close> values: the exact sum, correctly rounded. An exact
  zero sum of two operands of opposite sign is \<open>+0.0\<close>; \<open>x + x\<close> keeps the sign of
  \<open>x\<close> also when \<open>x\<close> is a zero.
\<close>

fun f64_add :: "float64 \<Rightarrow> float64 \<Rightarrow> float64" where
  "f64_add NaN _ = NaN"
| "f64_add _ NaN = NaN"
| "f64_add (Infinity s) (Infinity t) = (if s = t then Infinity s else NaN)"
| "f64_add (Infinity s) (Fin _ _) = Infinity s"
| "f64_add (Fin _ _) (Infinity t) = Infinity t"
| "f64_add (Fin s m) (Fin t n) =
     (if s = t then round_f64 s (m + n)
      else if m = n then Fin False 0
      else if n < m then round_f64 s (m - n)
      else round_f64 t (n - m))"

text \<open>
  The values that the lemmas below call valid: an infinity, NaN, or a finite value that
  rounding leaves alone and that is below the overflow threshold. Every result of
  \<open>f64_add\<close> is valid.
\<close>

definition f64_valid :: "float64 \<Rightarrow> bool" where
  "f64_valid x =
     (case x of Fin s m \<Rightarrow> round_nearest_even m = m \<and> m < 2 ^ 2098 | _ \<Rightarrow> True)"

subsection \<open>Errors\<close>

text \<open>
  Values of Go's \<^verbatim>\<open>error\<close> interface: the two sentinel errors of package \<^verbatim>\<open>os\<close> that
  a failed read of a file can wrap, and any other error by its message.
\<close>

datatype error = ErrNotExist | ErrPermission | ErrorString string

subsection \<open>Package vault: the transaction record\<close>

text \<open>
  Modelled from the spec: the declarations of \<^verbatim>\<open>vault.TransactionType\<close> and
  \<^verbatim>\<open>vault.Transaction\<close> are not among the sources; the handlers only use them. The
  spec gives the three kinds Payment, Transfer and Fee, which the handlers name
  \<^verbatim>\<open>vault.PaymentTransaction\<close>, \<^verbatim>\<open>vault.TransferTransaction\<close> and
  \<^verbatim>\<open>vault.FeeTransaction\<close>. A Go named type is open: a value of the type need not be
  one of its declared constants, and the \<^verbatim>\<open>switch\<close> of \<^verbatim>\<open>calculateSummary\<close> has no
  default case. \<open>OtherTransaction\<close> stands for every such value.
\<close>

datatype TransactionType =
    PaymentTransaction
  | TransferTransaction
  | FeeTransaction
  | OtherTransaction string

text \<open>
  Modelled from the spec: of \<^verbatim>\<open>vault.Transaction\<close> the handlers read the fields
  \<^verbatim>\<open>TransactionID\<close>, \<^verbatim>\<open>Amount\<close> (the amount as the string read from the CSV row) and
  \<^verbatim>\<open>Type\<close>.
\<close>

record Transaction =
  TransactionID :: string
  Amount :: string
  Type :: TransactionType

definition recognized :: "TransactionType \<Rightarrow> bool" where
  "recognized ty = (case ty of OtherTransaction _ \<Rightarrow> False | _ \<Rightarrow> True)"

subsection \<open>fmt.Sscanf with the verb \<^verbatim>\<open>%f\<close>\<close>

text \<open>
  \<^verbatim>\<open>fmt.Sscanf(txn.Amount, "%f", &amount)\<close> is a call into Go's standard library. It is
  a parameter of the model: a function from the input string and the value that
  \<^verbatim>\<open>amount\<close> holds before the call to the number of operands scanned, the error
  (\<open>None\<close> for \<^verbatim>\<open>nil\<close>) and the value that \<^verbatim>\<open>amount\<close> holds after the call.
\<close>

type_synonym Sscanf = "string \<Rightarrow> float64 \<Rightarrow> int \<times> error option \<times> float64"

text \<open>The test \<^verbatim>\<open>err != nil || n != 1\<close> of \<^verbatim>\<open>calculateSummary\<close>.\<close>

definition scan_failed :: "int \<times> error option \<times> float64 \<Rightarrow> bool" where
  "scan_failed res = (case res of (n, err, _) \<Rightarrow> err \<noteq> None \<or> n \<noteq> 1)"

text \<open>
  The library stores into its operand only when the verb has been scanned, and then
  it returns \<^verbatim>\<open>(1, nil)\<close>: a failed call leaves \<^verbatim>\<open>amount\<close> as it was.
\<close>

definition stores_only_on_success :: "Sscanf \<Rightarrow> bool" where
  "stores_only_on_success scanf =
     (\<forall>s a. scan_failed (scanf s a) \<longrightarrow> snd (snd (scanf s a)) = a)"

text \<open>
  A scanner given by a finite table of the strings it parses and their values; every
  other string fails with no operand scanned and nothing stored.
\<close>

definition Sscanf_table :: "(string \<times> float64) list \<Rightarrow> Sscanf" where
  "Sscanf_table tbl s a =
     (case map_of tbl s of
        Some v \<Rightarrow> (1, None, v)
      | None \<Rightarrow> (0, Some (ErrorString ''strconv.ParseFloat: invalid syntax''), a))"

section \<open>handlers/bookkeeping.go\<close>

text \<open>
  The sources hold two versions of the bookkeeping handlers: \<^verbatim>\<open>handlers/bookkeeping.go\<close>
  and a second file whose name is not known (\<^verbatim>\<open>part_000\<close>). Where the two differ, the
  definition for the second file carries the suffix \<open>_part_000\<close>.
\<close>

subsection \<open>SummaryStats and calculateSummary\<close>

text \<open>
  The counters are Go \<^verbatim>\<open>int\<close>s (64 bits). \<^verbatim>\<open>TotalTransactions\<close> is the length of the
  slice, which fits an \<^verbatim>\<open>int\<close>, and each other counter is incremented at most once
  per element, so no increment wraps; the counters are modelled as \<open>int\<close>.
\<close>

record SummaryStats =
  TotalTransactions :: int
  TotalPayments :: int
  TotalTransfers :: int
  TotalFees :: int
  PaymentsSum :: float64
  TransfersSum :: float64
  FeesSum :: float64
  NetLiquidity :: float64

text \<open>The struct literal \<^verbatim>\<open>SummaryStats{TotalTransactions: len(transactions)}\<close>.\<close>

definition init_stats :: "Transaction list \<Rightarrow> SummaryStats" where
  "init_stats transactions =
     \<lparr>TotalTransactions = int (length transactions),
      TotalPayments = 0, TotalTransfers = 0, TotalFees = 0,
      PaymentsSum = f64_zero, TransfersSum = f64_zero, FeesSum = f64_zero,
      NetLiquidity = f64_zero\<rparr>"

text \<open>
  The amount of one transaction in \<^verbatim>\<open>handlers/bookkeeping.go\<close>: \<^verbatim>\<open>var amount float64\<close>,
  the call of \<^verbatim>\<open>Sscanf\<close>, and the reset to \<^verbatim>\<open>0.0\<close> when the call failed.
\<close>

definition scan_amount :: "Sscanf \<Rightarrow> Transaction \<Rightarrow> float64" where
  "scan_amount scanf txn =
     (let res = scanf (Amount txn) f64_zero;
          amount = snd (snd res)
      in if scan_failed res then f64_zero else amount)"

text \<open>The same in the second file: the results of \<^verbatim>\<open>Sscanf\<close> are dropped.\<close>

definition scan_amount_part_000 :: "Sscanf \<Rightarrow> Transaction \<Rightarrow> float64" where
  "scan_amount_part_000 scanf txn = snd (snd (scanf (Amount txn) f64_zero))"

text \<open>The \<^verbatim>\<open>switch txn.Type\<close> of the loop body; it has no default case.\<close>

definition add_to_stats :: "SummaryStats \<Rightarrow> TransactionType \<Rightarrow> float64 \<Rightarrow> SummaryStats" where
  "add_to_stats stats ty amount =
     (case ty of
        PaymentTransaction \<Rightarrow>
          stats\<lparr>TotalPayments := TotalPayments stats + 1,
                PaymentsSum := f64_add (PaymentsSum stats) amount\<rparr>
      | TransferTransaction \<Rightarrow>
          stats\<lparr>TotalTransfers := TotalTransfers stats + 1,
                TransfersSum := f64_add (TransfersSum stats) amount\<rparr>
      | FeeTransaction \<Rightarrow>
          stats\<lparr>TotalFees := TotalFees stats + 1,
                FeesSum := f64_add (FeesSum stats) amount\<rparr>
      | OtherTransaction _ \<Rightarrow> stats)"

text \<open>
  The loop \<^verbatim>\<open>for _, txn := range transactions\<close>, with the way the amount is obtained
  as a parameter, since it is all that differs between the two files.
\<close>

fun summary_loop ::
  "(Transaction \<Rightarrow> float64) \<Rightarrow> Transaction list \<Rightarrow> SummaryStats \<Rightarrow> SummaryStats" where
  "summary_loop amt [] stats = stats"
| "summary_loop amt (txn # rest) stats =
     summary_loop amt rest (add_to_stats stats (Type txn) (amt txn))"

definition set_net_liquidity :: "SummaryStats \<Rightarrow> SummaryStats" where
  "set_net_liquidity stats =
     stats\<lparr>NetLiquidity :=
       f64_add (f64_add (PaymentsSum stats) (TransfersSum stats)) (FeesSum stats)\<rparr>"

text \<open>\<^verbatim>\<open>calculateSummary\<close> of \<^verbatim>\<open>handlers/bookkeeping.go\<close>.\<close>

definition calculateSummary :: "Sscanf \<Rightarrow> Transaction list \<Rightarrow> SummaryStats" where
  "calculateSummary scanf transactions =
     set_net_liquidity
       (summary_loop (scan_amount scanf) transactions (init_stats transactions))"

text \<open>\<^verbatim>\<open>calculateSummary\<close> of the second file.\<close>

definition calculateSummary_part_000 :: "Sscanf \<Rightarrow> Transaction list \<Rightarrow> SummaryStats" where
  "calculateSummary_part_000 scanf transactions =
     set_net_liquidity
       (summary_loop (scan_amount_part_000 scanf) transactions (init_stats transactions))"

text \<open>
  What the specification says of a transaction whose amount does not parse: it is
  counted, in \<^verbatim>\<open>TotalTransactions\<close> and in the counter of its type, and the sums are
  as they are without it.
\<close>

definition count_only :: "TransactionType \<Rightarrow> SummaryStats \<Rightarrow> SummaryStats" where
  "count_only ty stats =
     (let counted = stats\<lparr>TotalTransactions := TotalTransactions stats + 1\<rparr>
      in case ty of
           PaymentTransaction \<Rightarrow> counted\<lparr>TotalPayments := TotalPayments stats + 1\<rparr>
         | TransferTransaction \<Rightarrow> counted\<lparr>TotalTransfers := TotalTransfers stats + 1\<rparr>
         | FeeTransaction \<Rightarrow> counted\<lparr>TotalFees := TotalFees stats + 1\<rparr>
         | OtherTransaction _ \<Rightarrow> counted)"

text \<open>
  The warnings that \<^verbatim>\<open>calculateSummary\<close> of \<^verbatim>\<open>handlers/bookkeeping.go\<close> passes to
  \<^verbatim>\<open>log.Printf\<close>, in order (the second file logs nothing).
\<close>

definition calculateSummary_log :: "Sscanf \<Rightarrow> Transaction list \<Rightarrow> string list" where
  "calculateSummary_log scanf transactions =
     map (\<lambda>txn. ''Warning: Failed to parse amount '' @ [CHR 0x27] @ Amount txn @ [CHR 0x27]
                 @ '' for transaction '' @ TransactionID txn @ '', treating as 0.0'')
       (filter (\<lambda>txn. scan_failed (scanf (Amount txn) f64_zero)) transactions)"

subsection \<open>Package path/filepath (Unix) and the process environment\<close>

text \<open>
  \<^verbatim>\<open>getEnvOrDefault\<close> calls \<^verbatim>\<open>os.Getenv\<close>, \<^verbatim>\<open>filepath.Clean\<close> and \<^verbatim>\<open>filepath.Abs\<close> of Go's
  standard library. They are modelled for Unix paths (separator \<open>/\<close>, no volume
  names), after the library's documentation: \<^verbatim>\<open>Clean\<close> replaces multiple separators by
  one, eliminates each \<open>.\<close> element, eliminates each inner \<open>..\<close> element along with the
  element before it, and eliminates \<open>..\<close> elements that begin a rooted path; the empty
  result is \<open>.\<close>.
\<close>

definition IsAbs :: "string \<Rightarrow> bool" where
  "IsAbs path = (path \<noteq> [] \<and> hd path = CHR ''/'')"

text \<open>The elements of a path: the strings between its separators.\<close>

fun split_path :: "string \<Rightarrow> string list" where
  "split_path [] = [[]]"
| "split_path (c # cs) =
     (if c = CHR ''/'' then [] # split_path cs
      else (case split_path cs of [] \<Rightarrow> [[c]] | e # es \<Rightarrow> (c # e) # es))"

text \<open>\<^verbatim>\<open>strings.Join(elems, "/")\<close>.\<close>

fun join_path :: "string list \<Rightarrow> string" where
  "join_path [] = []"
| "join_path [e] = e"
| "join_path (e # es) = e @ CHR ''/'' # join_path es"

text \<open>
  One step of the loop of \<^verbatim>\<open>Clean\<close>: \<open>out\<close> holds the elements written so far. An
  empty element and \<open>.\<close> are skipped; \<open>..\<close> removes the last element when that is not
  itself a kept \<open>..\<close>, is kept when nothing can be removed and the path is not rooted,
  and is dropped at the root; any other element is appended.
\<close>

definition clean_elem :: "bool \<Rightarrow> string list \<Rightarrow> string \<Rightarrow> string list" where
  "clean_elem rooted out e =
     (if e = [] \<or> e = ''.'' then out
      else if e = ''..'' then
        (if out \<noteq> [] \<and> last out \<noteq> ''..'' then butlast out
         else if \<not> rooted then out @ [''..'']
         else out)
      else out @ [e])"

definition Clean :: "string \<Rightarrow> string" where
  "Clean path =
     (if path = [] then ''.''
      else
        let rooted = (hd path = CHR ''/'');
            out = foldl (clean_elem rooted) [] (split_path path)
        in if rooted then CHR ''/'' # join_path out
           else if out = [] then ''.''
           else join_path out)"

text \<open>
  \<^verbatim>\<open>filepath.Join\<close>: the elements from the first non-empty one on are joined with the
  separator and the result is cleaned; with no non-empty element the result is empty.
\<close>

definition Join :: "string list \<Rightarrow> string" where
  "Join elem =
     (case dropWhile (\<lambda>e. e = []) elem of
        [] \<Rightarrow> []
      | es \<Rightarrow> Clean (join_path es))"

text \<open>
  What the handlers read of the process: the environment variables and the result of
  \<^verbatim>\<open>os.Getwd\<close>, which fails when the working directory cannot be determined.
\<close>

record process =
  environ :: "string \<rightharpoonup> string"
  Getwd :: "error + string"

text \<open>\<^verbatim>\<open>os.Getenv\<close>: the value of the variable, empty when it is not set.\<close>

definition Getenv :: "process \<Rightarrow> string \<Rightarrow> string" where
  "Getenv os name = (case environ os name of None \<Rightarrow> [] | Some v \<Rightarrow> v)"

text \<open>
  \<^verbatim>\<open>filepath.Abs\<close>: an absolute path is cleaned; any other path is joined to the working
  directory, and the error of \<^verbatim>\<open>os.Getwd\<close> is returned when there is none.
\<close>

definition Abs :: "process \<Rightarrow> string \<Rightarrow> error + string" where
  "Abs os path =
     (if IsAbs path then Inr (Clean path)
      else (case Getwd os of
              Inl err \<Rightarrow> Inl err
            | Inr wd \<Rightarrow> Inr (Join [wd, path])))"

text \<open>
  The shape of the elements that \<^verbatim>\<open>Clean\<close> keeps, used in the proofs: \<open>..\<close> elements
  come before all others.
\<close>

fun dotdot_first :: "string list \<Rightarrow> bool" where
  "dotdot_first [] = True"
| "dotdot_first (e # es) = (if e = ''..'' then dotdot_first es else ''..'' \<notin> set es)"

definition cleaned_elems :: "bool \<Rightarrow> string list \<Rightarrow> bool" where
  "cleaned_elems rooted out =
     ((\<forall>e \<in> set out. e \<noteq> [] \<and> e \<noteq> ''.'' \<and> CHR ''/'' \<notin> set e)
      \<and> (rooted \<longrightarrow> ''..'' \<notin> set out)
      \<and> dotdot_first out)"

subsection \<open>getEnvOrDefault\<close>

text \<open>
  The value that is configured for a directory: the value of the environment variable
  when it is set and not empty, the default otherwise.
\<close>

definition configured_value :: "process \<Rightarrow> string \<Rightarrow> string \<Rightarrow> string" where
  "configured_value os name defaultValue =
     (if Getenv os name = [] then defaultValue else Getenv os name)"

text \<open>\<^verbatim>\<open>getEnvOrDefault\<close> of \<^verbatim>\<open>handlers/bookkeeping.go\<close>.\<close>

definition getEnvOrDefault :: "process \<Rightarrow> string \<Rightarrow> string \<Rightarrow> string" where
  "getEnvOrDefault os name defaultValue =
     (let value = Getenv os name in
      if value = [] then
        (case Abs os (Clean defaultValue) of
           Inl err \<Rightarrow> defaultValue
         | Inr absPath \<Rightarrow> absPath)
      else
        (case Abs os (Clean value) of
           Inl err \<Rightarrow> value
         | Inr absPath \<Rightarrow> absPath))"

text \<open>\<^verbatim>\<open>getEnvOrDefault\<close> of the second file.\<close>

definition getEnvOrDefault_part_000 :: "process \<Rightarrow> string \<Rightarrow> string \<Rightarrow> string" where
  "getEnvOrDefault_part_000 os name defaultValue =
     (let value = Getenv os name in
      if value = [] then
        (case Abs os defaultValue of
           Inr absPath \<Rightarrow> absPath
         | Inl err \<Rightarrow> defaultValue)
      else value)"

subsection \<open>The ledger page\<close>

text \<open>
  \<^verbatim>\<open>html.EscapeString\<close> of Go's standard library escapes exactly the five characters
  \<open>&\<close>, \<open>'\<close>, \<open><\<close>, \<open>>\<close> and \<open>"\<close>, as \<open>&amp;\<close>, \<open>&#39;\<close>, \<open>&lt;\<close>, \<open>&gt;\<close> and
  \<open>&#34;\<close>. \<open>CHR 0x22\<close> is the double quote and \<open>CHR 0x27\<close> the apostrophe.
\<close>

definition escape_char :: "char \<Rightarrow> string" where
  "escape_char c =
     (if c = CHR ''&'' then ''&amp;''
      else if c = CHR 0x27 then ''&#39;''
      else if c = CHR ''<'' then ''&lt;''
      else if c = CHR ''>'' then ''&gt;''
      else if c = CHR 0x22 then ''&#34;''
      else [c])"

fun EscapeString :: "string \<Rightarrow> string" where
  "EscapeString [] = []"
| "EscapeString (c # cs) = escape_char c @ EscapeString cs"

text \<open>
  Escaped text as a reader of HTML sees it: every \<open>&\<close> in it starts one of the five
  character references that \<^verbatim>\<open>EscapeString\<close> writes.
\<close>

definition entity_at :: "string \<Rightarrow> bool" where
  "entity_at s =
     (prefix ''&amp;'' s \<or> prefix ''&#39;'' s \<or> prefix ''&lt;'' s \<or> prefix ''&gt;'' s
      \<or> prefix ''&#34;'' s)"

fun ampersands_escaped :: "string \<Rightarrow> bool" where
  "ampersands_escaped [] = True"
| "ampersands_escaped (c # cs) =
     ((if c = CHR ''&'' then entity_at (c # cs) else True) \<and> ampersands_escaped cs)"

definition markdownToHTML :: "string \<Rightarrow> string" where
  "markdownToHTML md =
     (let escaped = EscapeString md
      in (''<div class='' @ [CHR 0x22] @ ''ledger-content'' @ [CHR 0x22] @ ''>'')
           @ escaped @ ''</div>'')"

text \<open>The message that \<^verbatim>\<open>LedgerHandler\<close> substitutes for the ledger file.\<close>

definition no_ledger_message :: string where
  "no_ledger_message =
     ''# No Ledger Available'' @ [CHR 0x0A, CHR 0x0A]
       @ ''No ledger data has been generated yet.''"

text \<open>
  What a handler does to the response: \<^verbatim>\<open>http.Error\<close> with the text of an error and a
  status code, or the execution of a template on the page data.
\<close>

record page_data =
  google_analytics_key :: string
  LedgerContent :: string

datatype 'tmpl response =
    HttpError error nat
  | ExecuteTemplate 'tmpl string page_data

text \<open>A line passed to \<^verbatim>\<open>log.Println\<close>: its text and the error printed after it.\<close>

type_synonym log_line = "string \<times> error"

text \<open>
  \<^verbatim>\<open>LedgerHandler\<close>. The parameters are the package variable \<^verbatim>\<open>googleAnalyticsKey\<close>, the
  file system as \<^verbatim>\<open>os.ReadFile\<close> sees it, the result of \<^verbatim>\<open>gh.loadTemplate\<close> and the
  error that \<^verbatim>\<open>t.ExecuteTemplate\<close> returns. The result is the response and the lines
  logged.
\<close>

definition LedgerHandler ::
  "string \<Rightarrow> (string \<Rightarrow> error + string) \<Rightarrow> (string \<Rightarrow> error + 'tmpl)
     \<Rightarrow> ('tmpl \<Rightarrow> page_data \<Rightarrow> error option) \<Rightarrow> 'tmpl response \<times> log_line list" where
  "LedgerHandler googleAnalyticsKey ReadFile loadTemplate execute =
     (let ledgerPath = Join [''ledger'', ''FK_MASTER_LEDGER.md''];
          (content, log1) =
            (case ReadFile ledgerPath of
               Inl err \<Rightarrow> (no_ledger_message, [(''ERROR: could not read ledger file: '', err)])
             | Inr bytes \<Rightarrow> (bytes, []))
      in case loadTemplate ''templates/ledger.html'' of
           Inl err \<Rightarrow>
             (HttpError err 500, log1 @ [(''ERROR: could not get ledger template: '', err)])
         | Inr t \<Rightarrow>
             let data = \<lparr>google_analytics_key = googleAnalyticsKey,
                         LedgerContent = markdownToHTML content\<rparr>
             in (ExecuteTemplate t ''base'' data,
                 log1 @ (case execute t data of
                           Some err \<Rightarrow> [(''ERROR:'', err)]
                         | None \<Rightarrow> [])))"

subsection \<open>The categories shown by the bookkeeping handlers\<close>

text \<open>
  Modelled from the spec: \<^verbatim>\<open>CategorizeTransactions\<close> is a method of package \<^verbatim>\<open>vault\<close>,
  which is not among the sources; the handlers only call it. By the spec it takes an
  already-classified list and returns a mapping from TransactionType to the ordered
  sub-list of the transactions of that type, and a type that does not occur in the
  input has an absent entry.
\<close>

definition CategorizeTransactions ::
  "Transaction list \<Rightarrow> (TransactionType \<rightharpoonup> Transaction list)" where
  "CategorizeTransactions transactions ty =
     (let sub = filter (\<lambda>txn. Type txn = ty) transactions
      in if sub = [] then None else Some sub)"

text \<open>Indexing a Go map: the zero value, here the empty slice, for an absent key.\<close>

definition index_map :: "('k \<rightharpoonup> 'v list) \<Rightarrow> 'k \<Rightarrow> 'v list" where
  "index_map m k = (case m k of None \<Rightarrow> [] | Some v \<Rightarrow> v)"

text \<open>
  The map \<^verbatim>\<open>transactionData\<close> that \<^verbatim>\<open>BookkeepingHandler\<close> and \<^verbatim>\<open>BookkeepingAPIHandler\<close>
  build from the categories, as the list of its three entries.
\<close>

definition transactionData ::
  "(TransactionType \<rightharpoonup> Transaction list) \<Rightarrow> (string \<times> Transaction list) list" where
  "transactionData categorized =
     [(''Payments'', index_map categorized PaymentTransaction),
      (''Transfers'', index_map categorized TransferTransaction),
      (''Fees'', index_map categorized FeeTransaction)]"

subsection \<open>The ledger writer\<close>

text \<open>
  Modelled from the spec: \<^verbatim>\<open>vault.Run\<close> and \<^verbatim>\<open>ReadCSVFiles\<close> are in package \<^verbatim>\<open>vault\<close>,
  which is not among the sources; \<^verbatim>\<open>ProcessTransactionsHandler\<close> only calls \<^verbatim>\<open>Run\<close>.
  By the spec the vault directory holds CSV files, read in file order, and the call
  fails with an I/O error when the directory cannot be listed; the ledger directory
  holds the snapshot \<^verbatim>\<open>FK_MASTER_LEDGER.md\<close>, and writing fails when the directory
  cannot be written to.
\<close>

record directories =
  vault_dir :: "error + (string \<times> string) list"
  ledger_dir :: "error + (string \<rightharpoonup> string)"

text \<open>
  Modelled from the spec: \<^verbatim>\<open>ReadCSVFiles\<close> parses every CSV file of the vault directory
  and returns the concatenation in file-then-row order; a structurally invalid row
  fails the call. How one file is parsed and classified is not specified and is the
  parameter \<open>parse\<close>.
\<close>

fun parse_files ::
  "(string \<Rightarrow> error + Transaction list) \<Rightarrow> (string \<times> string) list
     \<Rightarrow> error + Transaction list" where
  "parse_files parse [] = Inr []"
| "parse_files parse ((name, rows) # files) =
     (case parse rows of
        Inl err \<Rightarrow> Inl err
      | Inr txns \<Rightarrow>
          (case parse_files parse files of
             Inl err \<Rightarrow> Inl err
           | Inr rest \<Rightarrow> Inr (txns @ rest)))"

definition ReadCSVFiles ::
  "(string \<Rightarrow> error + Transaction list) \<Rightarrow> directories \<Rightarrow> error + Transaction list" where
  "ReadCSVFiles parse dirs =
     (case vault_dir dirs of
        Inl err \<Rightarrow> Inl err
      | Inr files \<Rightarrow> parse_files parse files)"

text \<open>
  Modelled from the spec: \<^verbatim>\<open>Run\<close> ingests the vault, computes the full new ledger
  document from the transactions and replaces the snapshot file with it; it fails when
  the vault cannot be read or the ledger directory cannot be written to. The format
  of the document is not specified and is the parameter \<open>render\<close>. The result is
  the error (\<open>None\<close> for \<^verbatim>\<open>nil\<close>) and the directories after the call.
\<close>

definition Run ::
  "(string \<Rightarrow> error + Transaction list) \<Rightarrow> (Transaction list \<Rightarrow> string)
     \<Rightarrow> directories \<Rightarrow> error option \<times> directories" where
  "Run parse render dirs =
     (case ReadCSVFiles parse dirs of
        Inl err \<Rightarrow> (Some err, dirs)
      | Inr txns \<Rightarrow>
          (case ledger_dir dirs of
             Inl err \<Rightarrow> (Some err, dirs)
           | Inr files \<Rightarrow>
               (None,
                dirs\<lparr>ledger_dir := Inr (files(''FK_MASTER_LEDGER.md'' \<mapsto> render txns))\<rparr>)))"

section \<open>Sample inputs\<close>

text \<open>The three rows of the scenario of the specification.\<close>

definition scenario :: "Transaction list" where
  "scenario =
     [\<lparr>TransactionID = ''T1'', Amount = ''100.50'', Type = PaymentTransaction\<rparr>,
      \<lparr>TransactionID = ''T2'', Amount = ''2.00'', Type = FeeTransaction\<rparr>,
      \<lparr>TransactionID = ''T3'', Amount = ''oops'', Type = TransferTransaction\<rparr>]"

text \<open>
  A process started in \<open>/srv/app\<close> with \<^verbatim>\<open>VAULT_DIR\<close> set to a relative, uncleaned path
  and \<^verbatim>\<open>LEDGER_DIR\<close> not set, and a process whose working directory has been removed,
  with \<^verbatim>\<open>LEDGER_DIR\<close> set to an absolute, uncleaned path and \<^verbatim>\<open>VAULT_DIR\<close> not set.
\<close>

definition sample_process :: process where
  "sample_process =
     \<lparr>environ = [''VAULT_DIR'' \<mapsto> ''data/../vault/''], Getwd = Inr ''/srv/app''\<rparr>"

definition lost_wd_process :: process where
  "lost_wd_process =
     \<lparr>environ = [''LEDGER_DIR'' \<mapsto> ''/var//ledger/''],
      Getwd = Inl (ErrorString ''getwd: no such file or directory'')\<rparr>"

text \<open>
  A file system in which the ledger file exists and cannot be read, and one with no
  ledger file.
\<close>

definition unreadable_ledger :: "string \<Rightarrow> error + string" where
  "unreadable_ledger path =
     (if path = ''ledger/FK_MASTER_LEDGER.md'' then Inl ErrPermission else Inl ErrNotExist)"

definition absent_ledger :: "string \<Rightarrow> error + string" where
  "absent_ledger path = Inl ErrNotExist"

text \<open>A scanner that parses the two numbers of the scenario: 100.5 and 2.\<close>

definition scenario_Sscanf :: Sscanf where
  "scenario_Sscanf = Sscanf_table [(''100.50'', f64_frac 201 1), (''2.00'', f64_frac 2 0)]"

section \<open>Properties of float64 addition\<close>

lemma round_nearest_even_0 [simp]: "round_nearest_even 0 = 0"
  by (simp add: round_nearest_even_def floorlog_def)

lemma round_nearest_even_exact:
  assumes "k < 2 ^ 53"
  shows "round_nearest_even (k * 2 ^ e) = k * 2 ^ e"
proof (cases "k = 0")
  case True
  then show ?thesis by simp
next
  case False
  then have fl: "floorlog 2 (k * 2 ^ e) = floorlog 2 k + e"
    by (simp add: floorlog_power)
  have kb: "floorlog 2 k \<le> 53"
    using assms by (simp add: floorlog_le_iff)
  show ?thesis
  proof (cases "floorlog 2 k + e \<le> 53")
    case True
    then show ?thesis by (simp add: round_nearest_even_def fl)
  next
    case False
    define s where "s = floorlog 2 k + e - 53"
    from False kb have s: "0 < s" "s \<le> e" by (simp_all add: s_def)
    then have split: "k * 2 ^ e = (k * 2 ^ (e - s)) * 2 ^ s"
      by (simp add: power_add [symmetric])
    have d: "(k * 2 ^ e) div 2 ^ s = k * 2 ^ (e - s)"
      by (subst split) simp
    have m: "(k * 2 ^ e) mod 2 ^ s = 0"
      by (subst split) simp
    from False s show ?thesis
      unfolding round_nearest_even_def Let_def fl s_def [symmetric]
      by (simp add: d m power_add [symmetric])
  qed
qed

lemma round_nearest_even_form:
  "\<exists>k e. k \<le> 2 ^ 53 \<and> round_nearest_even m = k * 2 ^ e"
proof (cases "floorlog 2 m \<le> 53")
  case True
  then have "m < 2 ^ 53" by (rule floorlog_leD) simp
  moreover from True have "round_nearest_even m = m * 2 ^ 0"
    by (simp add: round_nearest_even_def)
  ultimately show ?thesis by (metis less_imp_le)
next
  case False
  define s where "s = floorlog 2 m - 53"
  define q where "q = m div 2 ^ s"
  from False have b: "floorlog 2 m = 53 + s" by (simp add: s_def)
  have "m < 2 ^ (53 + s)"
    using floorlog_leD [of 2 m "53 + s"] b by simp
  then have "q < 2 ^ 53"
    by (simp add: q_def less_mult_imp_div_less power_add)
  then have "q \<le> 2 ^ 53" "q + 1 \<le> 2 ^ 53" by simp_all
  moreover from False have "round_nearest_even m = q * 2 ^ s \<or> round_nearest_even m = (q + 1) * 2 ^ s"
    unfolding round_nearest_even_def Let_def s_def [symmetric] q_def [symmetric]
    by simp
  ultimately show ?thesis by blast
qed

lemma round_nearest_even_idem:
  "round_nearest_even (round_nearest_even m) = round_nearest_even m"
proof -
  obtain k e where ke: "k \<le> 2 ^ 53" "round_nearest_even m = k * 2 ^ e"
    using round_nearest_even_form by blast
  show ?thesis
  proof (cases "k = 2 ^ 53")
    case True
    with ke have "round_nearest_even m = 2 ^ 52 * 2 ^ Suc e" by simp
    moreover have "round_nearest_even (2 ^ 52 * 2 ^ Suc e) = 2 ^ 52 * 2 ^ Suc e"
      by (rule round_nearest_even_exact) simp
    ultimately show ?thesis by simp
  next
    case False
    with ke have "k < 2 ^ 53" by simp
    then show ?thesis by (simp add: ke round_nearest_even_exact)
  qed
qed

lemma round_nearest_even_eq_0: "round_nearest_even m = 0 \<longleftrightarrow> m = 0"
proof (cases "floorlog 2 m \<le> 53")
  case True
  then show ?thesis by (simp add: round_nearest_even_def)
next
  case False
  define s where "s = floorlog 2 m - 53"
  from False have "m \<noteq> 0" by (auto simp: floorlog_def split: if_splits)
  then have m0: "0 < m" by simp
  from False have b: "floorlog 2 m = 53 + s" by (simp add: s_def)
  have "2 ^ (floorlog 2 m - 1) \<le> m"
    using floorlog_bounds [of m 2] m0 by simp
  moreover have "(2::nat) ^ s \<le> 2 ^ (floorlog 2 m - 1)"
    by (rule power_increasing) (simp_all add: b)
  ultimately have "2 ^ s \<le> m" by (rule order_trans [rotated])
  then have "0 < m div 2 ^ s" by (simp add: div_greater_zero_iff)
  with False m0 show ?thesis
    unfolding round_nearest_even_def Let_def s_def [symmetric]
    by auto
qed

lemma f64_valid_round_f64: "f64_valid (round_f64 s m)"
  by (simp add: round_f64_def f64_valid_def Let_def round_nearest_even_idem not_le)

lemma f64_valid_add: "f64_valid (f64_add a b)"
  by (induction a b rule: f64_add.induct) (simp_all add: f64_valid_round_f64, simp_all add: f64_valid_def)

lemma round_f64_valid: "f64_valid (Fin s m) \<Longrightarrow> round_f64 s m = Fin s m"
  by (simp add: f64_valid_def round_f64_def)

lemma f64_add_neg_zero:
  "f64_add a b = Fin True 0 \<Longrightarrow> a = Fin True 0 \<and> b = Fin True 0"
  by (induction a b rule: f64_add.induct)
     (auto simp: round_f64_def Let_def round_nearest_even_eq_0 split: if_splits)

lemma f64_add_zero_right:
  "f64_valid x \<Longrightarrow> x \<noteq> Fin True 0 \<Longrightarrow> f64_add x f64_zero = x"
  by (cases x) (auto simp: f64_zero_def round_f64_valid)

lemma f64_add_zero_left:
  "f64_valid x \<Longrightarrow> x \<noteq> Fin True 0 \<Longrightarrow> f64_add f64_zero x = x"
  by (cases x) (auto simp: f64_zero_def round_f64_valid)

lemma f64_frac_valid:
  assumes "k < 2 ^ 53"
  shows "f64_valid (f64_frac k e)"
proof -
  have "(2::nat) ^ (1074 - e) \<le> 2 ^ 1074"
    by (rule power_increasing) simp_all
  with assms have "k * 2 ^ (1074 - e) < 2 ^ 53 * (2::nat) ^ 1074"
    by (rule mult_less_le_imp_less) simp_all
  also have "\<dots> \<le> 2 ^ 2098"
    unfolding power_add [symmetric] by (rule power_increasing) simp_all
  finally show ?thesis
    using assms by (simp add: f64_valid_def f64_frac_def round_nearest_even_exact)
qed

lemma f64_frac_add:
  assumes "j + k < 2 ^ 53"
  shows "f64_add (f64_frac j e) (f64_frac k e) = f64_frac (j + k) e"
proof -
  have "round_f64 False ((j + k) * 2 ^ (1074 - e)) = Fin False ((j + k) * 2 ^ (1074 - e))"
    using f64_frac_valid [OF assms, of e] by (simp add: f64_frac_def round_f64_valid)
  then show ?thesis
    by (simp add: f64_frac_def distrib_right)
qed


section \<open>Properties of calculateSummary\<close>

subsection \<open>The counters\<close>

lemma add_to_stats_counts:
  "TotalTransactions (add_to_stats st ty a) = TotalTransactions st"
  "TotalPayments (add_to_stats st ty a) =
     TotalPayments st + (if ty = PaymentTransaction then 1 else 0)"
  "TotalTransfers (add_to_stats st ty a) =
     TotalTransfers st + (if ty = TransferTransaction then 1 else 0)"
  "TotalFees (add_to_stats st ty a) =
     TotalFees st + (if ty = FeeTransaction then 1 else 0)"
  by (cases ty; simp add: add_to_stats_def)+

lemma summary_loop_counts:
  "TotalTransactions (summary_loop amt txns st) = TotalTransactions st"
  "TotalPayments (summary_loop amt txns st) =
     TotalPayments st + int (length (filter (\<lambda>t. Type t = PaymentTransaction) txns))"
  "TotalTransfers (summary_loop amt txns st) =
     TotalTransfers st + int (length (filter (\<lambda>t. Type t = TransferTransaction) txns))"
  "TotalFees (summary_loop amt txns st) =
     TotalFees st + int (length (filter (\<lambda>t. Type t = FeeTransaction) txns))"
  by (induction txns arbitrary: st; simp add: add_to_stats_counts)+

lemma set_net_liquidity_counts [simp]:
  "TotalTransactions (set_net_liquidity st) = TotalTransactions st"
  "TotalPayments (set_net_liquidity st) = TotalPayments st"
  "TotalTransfers (set_net_liquidity st) = TotalTransfers st"
  "TotalFees (set_net_liquidity st) = TotalFees st"
  by (simp_all add: set_net_liquidity_def)

lemma set_net_liquidity_sums [simp]:
  "PaymentsSum (set_net_liquidity st) = PaymentsSum st"
  "TransfersSum (set_net_liquidity st) = TransfersSum st"
  "FeesSum (set_net_liquidity st) = FeesSum st"
  "NetLiquidity (set_net_liquidity st) =
     f64_add (f64_add (PaymentsSum st) (TransfersSum st)) (FeesSum st)"
  by (simp_all add: set_net_liquidity_def)

text \<open>The three filters by kind cover a list exactly when no kind is unrecognized.\<close>

lemma kinds_cover:
  "length (filter (\<lambda>t. Type t = PaymentTransaction) txns)
     + length (filter (\<lambda>t. Type t = TransferTransaction) txns)
     + length (filter (\<lambda>t. Type t = FeeTransaction) txns)
     + length (filter (\<lambda>t. \<not> recognized (Type t)) txns) = length txns"
proof (induction txns)
  case Nil
  show ?case by simp
next
  case (Cons t txns)
  then show ?case by (cases "Type t") (simp_all add: recognized_def)
qed

lemma counts_sum_iff:
  "int (length (filter (\<lambda>t. Type t = PaymentTransaction) txns))
     + int (length (filter (\<lambda>t. Type t = TransferTransaction) txns))
     + int (length (filter (\<lambda>t. Type t = FeeTransaction) txns)) = int (length txns)
   \<longleftrightarrow> (\<forall>t \<in> set txns. recognized (Type t))"
proof -
  have "length (filter (\<lambda>t. \<not> recognized (Type t)) txns) = 0
          \<longleftrightarrow> (\<forall>t \<in> set txns. recognized (Type t))"
    by (simp add: filter_empty_conv)
  with kinds_cover [of txns] show ?thesis by linarith
qed

text \<open>
  No counter exceeds the length of the slice, so where the length fits a 64-bit
  \<^verbatim>\<open>int\<close> no increment of a counter wraps.
\<close>

lemma summary_loop_counters_bounded:
  "TotalPayments (summary_loop amt txns (init_stats txns)) \<le> int (length txns)"
  "TotalTransfers (summary_loop amt txns (init_stats txns)) \<le> int (length txns)"
  "TotalFees (summary_loop amt txns (init_stats txns)) \<le> int (length txns)"
  "0 \<le> TotalPayments (summary_loop amt txns (init_stats txns))"
  "0 \<le> TotalTransfers (summary_loop amt txns (init_stats txns))"
  "0 \<le> TotalFees (summary_loop amt txns (init_stats txns))"
  by (simp_all add: summary_loop_counts init_stats_def)

subsection \<open>The sums\<close>

lemma add_to_stats_sums:
  "PaymentsSum (add_to_stats st ty a) =
     (if ty = PaymentTransaction then f64_add (PaymentsSum st) a else PaymentsSum st)"
  "TransfersSum (add_to_stats st ty a) =
     (if ty = TransferTransaction then f64_add (TransfersSum st) a else TransfersSum st)"
  "FeesSum (add_to_stats st ty a) =
     (if ty = FeeTransaction then f64_add (FeesSum st) a else FeesSum st)"
  "NetLiquidity (add_to_stats st ty a) = NetLiquidity st"
  by (cases ty; simp add: add_to_stats_def)+

lemma summary_loop_sums:
  "PaymentsSum (summary_loop amt txns st) =
     foldl f64_add (PaymentsSum st) (map amt (filter (\<lambda>t. Type t = PaymentTransaction) txns))"
  "TransfersSum (summary_loop amt txns st) =
     foldl f64_add (TransfersSum st) (map amt (filter (\<lambda>t. Type t = TransferTransaction) txns))"
  "FeesSum (summary_loop amt txns st) =
     foldl f64_add (FeesSum st) (map amt (filter (\<lambda>t. Type t = FeeTransaction) txns))"
  "NetLiquidity (summary_loop amt txns st) = NetLiquidity st"
  by (induction txns arbitrary: st; simp add: add_to_stats_sums)+

lemma summary_loop_more [simp]:
  "SummaryStats.more (summary_loop amt txns st) = SummaryStats.more st"
  by (induction txns arbitrary: st) (simp_all add: add_to_stats_def split: TransactionType.splits)

text \<open>A sum that starts from \<open>+0.0\<close> stays valid and is never \<open>-0.0\<close>.\<close>

lemma foldl_f64_add_good:
  "f64_valid z \<Longrightarrow> z \<noteq> Fin True 0 \<Longrightarrow>
     f64_valid (foldl f64_add z as) \<and> foldl f64_add z as \<noteq> Fin True 0"
proof (induction as arbitrary: z)
  case Nil
  then show ?case by simp
next
  case (Cons a as)
  have "f64_valid (f64_add z a)" by (rule f64_valid_add)
  moreover from Cons.prems have "f64_add z a \<noteq> Fin True 0"
    using f64_add_neg_zero by blast
  ultimately show ?case using Cons.IH by simp
qed

lemma f64_zero_good: "f64_valid f64_zero" "f64_zero \<noteq> Fin True 0"
  by (simp_all add: f64_valid_def f64_zero_def)

lemma foldl_f64_add_skip_zero:
  "foldl f64_add f64_zero (as @ f64_zero # bs) = foldl f64_add f64_zero (as @ bs)"
proof -
  have "f64_add (foldl f64_add f64_zero as) f64_zero = foldl f64_add f64_zero as"
    using foldl_f64_add_good [OF f64_zero_good, of as] by (simp add: f64_add_zero_right)
  then show ?thesis by simp
qed

lemma sum_skip_zero_amount:
  assumes "amt t = f64_zero"
  shows "foldl f64_add f64_zero (map amt (filter P (xs @ t # ys)))
           = foldl f64_add f64_zero (map amt (filter P (xs @ ys)))"
  using assms by (simp add: foldl_f64_add_skip_zero del: foldl_append)

lemma init_stats_fields [simp]:
  "TotalTransactions (init_stats txns) = int (length txns)"
  "TotalPayments (init_stats txns) = 0"
  "TotalTransfers (init_stats txns) = 0"
  "TotalFees (init_stats txns) = 0"
  "PaymentsSum (init_stats txns) = f64_zero"
  "TransfersSum (init_stats txns) = f64_zero"
  "FeesSum (init_stats txns) = f64_zero"
  "NetLiquidity (init_stats txns) = f64_zero"
  by (simp_all add: init_stats_def)

lemma count_only_fields:
  "TotalTransactions (count_only ty st) = TotalTransactions st + 1"
  "TotalPayments (count_only ty st) =
     TotalPayments st + (if ty = PaymentTransaction then 1 else 0)"
  "TotalTransfers (count_only ty st) =
     TotalTransfers st + (if ty = TransferTransaction then 1 else 0)"
  "TotalFees (count_only ty st) = TotalFees st + (if ty = FeeTransaction then 1 else 0)"
  "PaymentsSum (count_only ty st) = PaymentsSum st"
  "TransfersSum (count_only ty st) = TransfersSum st"
  "FeesSum (count_only ty st) = FeesSum st"
  "NetLiquidity (count_only ty st) = NetLiquidity st"
  "SummaryStats.more (count_only ty st) = SummaryStats.more st"
  by (cases ty; simp add: count_only_def)+

text \<open>
  The result of either \<^verbatim>\<open>calculateSummary\<close> with a transaction of amount \<open>0.0\<close> in the
  list, against the result without it.
\<close>

lemma summary_loop_skip_zero_amount:
  assumes "amt t = f64_zero"
  shows "PaymentsSum (summary_loop amt (xs @ t # ys) (init_stats l))
           = PaymentsSum (summary_loop amt (xs @ ys) (init_stats l'))"
    and "TransfersSum (summary_loop amt (xs @ t # ys) (init_stats l))
           = TransfersSum (summary_loop amt (xs @ ys) (init_stats l'))"
    and "FeesSum (summary_loop amt (xs @ t # ys) (init_stats l))
           = FeesSum (summary_loop amt (xs @ ys) (init_stats l'))"
  by (simp_all add: summary_loop_sums sum_skip_zero_amount [where amt = amt and t = t, OF assms]
        del: foldl_append map_append filter_append)

lemma zero_amount_only_counted:
  assumes "amt t = f64_zero"
  shows "set_net_liquidity (summary_loop amt (xs @ t # ys) (init_stats (xs @ t # ys)))
           = count_only (Type t)
               (set_net_liquidity (summary_loop amt (xs @ ys) (init_stats (xs @ ys))))"
proof (rule SummaryStats.equality)
  show "SummaryStats.more (set_net_liquidity (summary_loop amt (xs @ t # ys) (init_stats (xs @ t # ys))))
          = SummaryStats.more (count_only (Type t)
               (set_net_liquidity (summary_loop amt (xs @ ys) (init_stats (xs @ ys)))))"
    by (simp add: count_only_fields set_net_liquidity_def init_stats_def)
qed (simp_all add: count_only_fields summary_loop_counts
       summary_loop_skip_zero_amount [where amt = amt and t = t and l' = "xs @ ys", OF assms])

lemma scan_amount_failed:
  "scan_failed (scanf (Amount t) f64_zero) \<Longrightarrow> scan_amount scanf t = f64_zero"
  by (simp add: scan_amount_def)

lemma scan_amount_part_000_failed:
  "stores_only_on_success scanf \<Longrightarrow> scan_failed (scanf (Amount t) f64_zero) \<Longrightarrow>
     scan_amount_part_000 scanf t = f64_zero"
  by (simp add: scan_amount_part_000_def stores_only_on_success_def)

lemma scan_amount_part_000_eq:
  "stores_only_on_success scanf \<Longrightarrow> scan_amount_part_000 scanf = scan_amount scanf"
  by (rule ext) (auto simp: scan_amount_part_000_def scan_amount_def stores_only_on_success_def Let_def)

text \<open>\<^verbatim>\<open>handlers/bookkeeping.go\<close> logs one warning for each amount that does not parse.\<close>

lemma calculateSummary_log_length:
  "length (calculateSummary_log scanf txns)
     = length (filter (\<lambda>t. scan_failed (scanf (Amount t) f64_zero)) txns)"
  by (simp add: calculateSummary_log_def)

lemma Sscanf_table_stores_only_on_success: "stores_only_on_success (Sscanf_table tbl)"
  by (simp add: stores_only_on_success_def Sscanf_table_def scan_failed_def split: option.splits)

section \<open>Theorems about calculateSummary\<close>

text \<open>
  C1. In the statistics that \<^verbatim>\<open>calculateSummary\<close> returns, the three counts by type add
  up to \<^verbatim>\<open>TotalTransactions\<close> exactly when every transaction of the list has one of the
  three recognized types. This holds for both files.
\<close>

theorem calculateSummary_counts_sum_iff:
  "(TotalPayments (calculateSummary scanf txns) + TotalTransfers (calculateSummary scanf txns)
      + TotalFees (calculateSummary scanf txns) = TotalTransactions (calculateSummary scanf txns)
    \<longleftrightarrow> (\<forall>t \<in> set txns. recognized (Type t)))
   \<and> (TotalPayments (calculateSummary_part_000 scanf txns)
      + TotalTransfers (calculateSummary_part_000 scanf txns)
      + TotalFees (calculateSummary_part_000 scanf txns)
        = TotalTransactions (calculateSummary_part_000 scanf txns)
    \<longleftrightarrow> (\<forall>t \<in> set txns. recognized (Type t)))"
  by (simp add: calculateSummary_def calculateSummary_part_000_def summary_loop_counts
        counts_sum_iff)

theorem calculateSummary_counts_sum_iff_witness:
  "list_all (\<lambda>t. recognized (Type t)) scenario
   \<and> TotalPayments (calculateSummary scenario_Sscanf scenario)
      + TotalTransfers (calculateSummary scenario_Sscanf scenario)
      + TotalFees (calculateSummary scenario_Sscanf scenario)
        = TotalTransactions (calculateSummary scenario_Sscanf scenario)
   \<and> TotalPayments (calculateSummary scenario_Sscanf
          [\<lparr>TransactionID = ''T4'', Amount = ''1'', Type = OtherTransaction ''refund''\<rparr>])
      + TotalTransfers (calculateSummary scenario_Sscanf
          [\<lparr>TransactionID = ''T4'', Amount = ''1'', Type = OtherTransaction ''refund''\<rparr>])
      + TotalFees (calculateSummary scenario_Sscanf
          [\<lparr>TransactionID = ''T4'', Amount = ''1'', Type = OtherTransaction ''refund''\<rparr>])
        \<noteq> TotalTransactions (calculateSummary scenario_Sscanf
          [\<lparr>TransactionID = ''T4'', Amount = ''1'', Type = OtherTransaction ''refund''\<rparr>])"
  using calculateSummary_counts_sum_iff [of scenario_Sscanf scenario]
    calculateSummary_counts_sum_iff [of scenario_Sscanf
      "[\<lparr>TransactionID = ''T4'', Amount = ''1'', Type = OtherTransaction ''refund''\<rparr>]"]
  by (simp add: scenario_def recognized_def)

text \<open>
  C2. A transaction whose amount does not parse (the call of \<^verbatim>\<open>Sscanf\<close> fails the test
  of \<^verbatim>\<open>calculateSummary\<close>) has the amount \<open>0.0\<close>, and the statistics of a list that
  contains it are those of the list without it, with \<^verbatim>\<open>TotalTransactions\<close> and the
  counter of its type one higher: all sums and the net liquidity are the same, and the
  transactions before and after it are aggregated as without it. For the second
  file, which does not test the result of \<^verbatim>\<open>Sscanf\<close>, this holds when a failed
  \<^verbatim>\<open>Sscanf\<close> leaves its operand as it was.
\<close>

theorem unparsable_amount_only_counted:
  assumes "scan_failed (scanf (Amount t) f64_zero)"
  shows "scan_amount scanf t = f64_zero
    \<and> calculateSummary scanf (xs @ t # ys)
        = count_only (Type t) (calculateSummary scanf (xs @ ys))
    \<and> (stores_only_on_success scanf \<longrightarrow>
         scan_amount_part_000 scanf t = f64_zero
         \<and> calculateSummary_part_000 scanf (xs @ t # ys)
             = count_only (Type t) (calculateSummary_part_000 scanf (xs @ ys)))"
  using assms
  by (simp add: calculateSummary_def calculateSummary_part_000_def scan_amount_failed
        scan_amount_part_000_failed zero_amount_only_counted)

theorem unparsable_amount_only_counted_witness:
  "scan_failed (scenario_Sscanf
      (Amount \<lparr>TransactionID = ''T3'', Amount = ''oops'', Type = TransferTransaction\<rparr>) f64_zero)
   \<and> stores_only_on_success scenario_Sscanf
   \<and> calculateSummary scenario_Sscanf
        ([\<lparr>TransactionID = ''T1'', Amount = ''100.50'', Type = PaymentTransaction\<rparr>]
         @ \<lparr>TransactionID = ''T3'', Amount = ''oops'', Type = TransferTransaction\<rparr>
         # [\<lparr>TransactionID = ''T2'', Amount = ''2.00'', Type = FeeTransaction\<rparr>])
      = count_only TransferTransaction
          (calculateSummary scenario_Sscanf
            ([\<lparr>TransactionID = ''T1'', Amount = ''100.50'', Type = PaymentTransaction\<rparr>]
             @ [\<lparr>TransactionID = ''T2'', Amount = ''2.00'', Type = FeeTransaction\<rparr>]))
   \<and> calculateSummary_part_000 scenario_Sscanf
        ([\<lparr>TransactionID = ''T1'', Amount = ''100.50'', Type = PaymentTransaction\<rparr>]
         @ \<lparr>TransactionID = ''T3'', Amount = ''oops'', Type = TransferTransaction\<rparr>
         # [\<lparr>TransactionID = ''T2'', Amount = ''2.00'', Type = FeeTransaction\<rparr>])
      = count_only TransferTransaction
          (calculateSummary_part_000 scenario_Sscanf
            ([\<lparr>TransactionID = ''T1'', Amount = ''100.50'', Type = PaymentTransaction\<rparr>]
             @ [\<lparr>TransactionID = ''T2'', Amount = ''2.00'', Type = FeeTransaction\<rparr>]))"
proof -
  have failed: "scan_failed (scenario_Sscanf
      (Amount \<lparr>TransactionID = ''T3'', Amount = ''oops'', Type = TransferTransaction\<rparr>) f64_zero)"
    by (simp add: scenario_Sscanf_def Sscanf_table_def scan_failed_def)
  have stores: "stores_only_on_success scenario_Sscanf"
    by (simp add: scenario_Sscanf_def Sscanf_table_stores_only_on_success)
  show ?thesis
    using failed stores
      unparsable_amount_only_counted [where scanf = scenario_Sscanf
        and t = "\<lparr>TransactionID = ''T3'', Amount = ''oops'', Type = TransferTransaction\<rparr>"
        and xs = "[\<lparr>TransactionID = ''T1'', Amount = ''100.50'', Type = PaymentTransaction\<rparr>]"
        and ys = "[\<lparr>TransactionID = ''T2'', Amount = ''2.00'', Type = FeeTransaction\<rparr>]",
        OF failed]
    by simp
qed

text \<open>
  C3. The \<^verbatim>\<open>NetLiquidity\<close> of the statistics returned is the value of the Go expression
  \<^verbatim>\<open>stats.PaymentsSum + stats.TransfersSum + stats.FeesSum\<close> on the three sums returned:
  the two \<^verbatim>\<open>float64\<close> additions and nothing else. This holds for both files. Each
  of the three sums is itself the amounts of its type added up from \<open>+0.0\<close> in the
  order of the list, with no change of sign. Equality is that of the values: a sum
  that is NaN gives the net liquidity NaN.
\<close>

theorem net_liquidity_is_sum_of_sums:
  "NetLiquidity (calculateSummary scanf txns)
     = f64_add (f64_add (PaymentsSum (calculateSummary scanf txns))
                        (TransfersSum (calculateSummary scanf txns)))
               (FeesSum (calculateSummary scanf txns))
   \<and> NetLiquidity (calculateSummary_part_000 scanf txns)
     = f64_add (f64_add (PaymentsSum (calculateSummary_part_000 scanf txns))
                        (TransfersSum (calculateSummary_part_000 scanf txns)))
               (FeesSum (calculateSummary_part_000 scanf txns))
   \<and> NetLiquidity (calculateSummary scanf txns)
     = f64_add
         (f64_add
           (foldl f64_add f64_zero
             (map (scan_amount scanf) (filter (\<lambda>t. Type t = PaymentTransaction) txns)))
           (foldl f64_add f64_zero
             (map (scan_amount scanf) (filter (\<lambda>t. Type t = TransferTransaction) txns))))
         (foldl f64_add f64_zero
           (map (scan_amount scanf) (filter (\<lambda>t. Type t = FeeTransaction) txns)))"
  by (simp add: calculateSummary_def calculateSummary_part_000_def summary_loop_sums)

text \<open>
  C4. On the three rows of the scenario, when \<^verbatim>\<open>Sscanf\<close> parses \<open>100.50\<close> as 100.5 and
  \<open>2.00\<close> as 2 and fails on \<open>oops\<close>, \<^verbatim>\<open>calculateSummary\<close> returns 3 transactions, 1
  payment with sum 100.5, 1 fee with sum 2, 1 transfer with sum 0 and the net liquidity
  102.5. The second file returns the same when the failed call has left the amount at
  zero.
\<close>

theorem scenario_summary:
  assumes "scanf ''100.50'' f64_zero = (1, None, f64_frac 201 1)"
    and "scanf ''2.00'' f64_zero = (1, None, f64_frac 2 0)"
    and "scan_failed (scanf ''oops'' f64_zero)"
  shows "calculateSummary scanf scenario
      = \<lparr>TotalTransactions = 3, TotalPayments = 1, TotalTransfers = 1, TotalFees = 1,
         PaymentsSum = f64_frac 201 1, TransfersSum = f64_zero, FeesSum = f64_frac 2 0,
         NetLiquidity = f64_frac 205 1\<rparr>
    \<and> (snd (snd (scanf ''oops'' f64_zero)) = f64_zero \<longrightarrow>
        calculateSummary_part_000 scanf scenario
          = \<lparr>TotalTransactions = 3, TotalPayments = 1, TotalTransfers = 1, TotalFees = 1,
             PaymentsSum = f64_frac 201 1, TransfersSum = f64_zero, FeesSum = f64_frac 2 0,
             NetLiquidity = f64_frac 205 1\<rparr>)"
proof -
  have v: "f64_valid (f64_frac 201 1)" "f64_valid (f64_frac 2 0)"
    by (simp_all add: f64_frac_valid)
  have nz: "f64_frac 201 1 \<noteq> Fin True 0" "f64_frac 2 0 \<noteq> Fin True 0"
    by (simp_all add: f64_frac_def)
  have "f64_frac 2 0 = f64_frac 4 1"
    by (simp add: f64_frac_def)
  then have sum: "f64_add (f64_frac 201 1) (f64_frac 2 0) = f64_frac 205 1"
    by (simp add: f64_frac_add)
  note adds = f64_add_zero_left [OF v(1) nz(1)] f64_add_zero_left [OF v(2) nz(2)]
    f64_add_zero_right [OF v(1) nz(1)] f64_add_zero_left [OF f64_zero_good] sum
  have amounts:
    "scan_amount scanf \<lparr>TransactionID = ''T1'', Amount = ''100.50'', Type = PaymentTransaction\<rparr>
       = f64_frac 201 1"
    "scan_amount scanf \<lparr>TransactionID = ''T2'', Amount = ''2.00'', Type = FeeTransaction\<rparr>
       = f64_frac 2 0"
    "scan_amount scanf \<lparr>TransactionID = ''T3'', Amount = ''oops'', Type = TransferTransaction\<rparr>
       = f64_zero"
    using assms by (simp_all add: scan_amount_def scan_failed_def)
  have amounts':
    "scan_amount_part_000 scanf
       \<lparr>TransactionID = ''T1'', Amount = ''100.50'', Type = PaymentTransaction\<rparr> = f64_frac 201 1"
    "scan_amount_part_000 scanf
       \<lparr>TransactionID = ''T2'', Amount = ''2.00'', Type = FeeTransaction\<rparr> = f64_frac 2 0"
    using assms by (simp_all add: scan_amount_part_000_def)
  have main: "calculateSummary scanf scenario
      = \<lparr>TotalTransactions = 3, TotalPayments = 1, TotalTransfers = 1, TotalFees = 1,
         PaymentsSum = f64_frac 201 1, TransfersSum = f64_zero, FeesSum = f64_frac 2 0,
         NetLiquidity = f64_frac 205 1\<rparr>"
    using amounts adds
    by (simp add: calculateSummary_def scenario_def init_stats_def add_to_stats_def
          set_net_liquidity_def)
  have second: "calculateSummary_part_000 scanf scenario
      = \<lparr>TotalTransactions = 3, TotalPayments = 1, TotalTransfers = 1, TotalFees = 1,
         PaymentsSum = f64_frac 201 1, TransfersSum = f64_zero, FeesSum = f64_frac 2 0,
         NetLiquidity = f64_frac 205 1\<rparr>"
    if "snd (snd (scanf ''oops'' f64_zero)) = f64_zero"
    using that amounts' adds
    by (simp add: calculateSummary_part_000_def scenario_def init_stats_def add_to_stats_def
          set_net_liquidity_def scan_amount_part_000_def)
  from main second show ?thesis by blast
qed

theorem scenario_summary_witness:
  "scenario_Sscanf ''100.50'' f64_zero = (1, None, f64_frac 201 1)
   \<and> scenario_Sscanf ''2.00'' f64_zero = (1, None, f64_frac 2 0)
   \<and> scan_failed (scenario_Sscanf ''oops'' f64_zero)
   \<and> snd (snd (scenario_Sscanf ''oops'' f64_zero)) = f64_zero
   \<and> calculateSummary scenario_Sscanf scenario
      = \<lparr>TotalTransactions = 3, TotalPayments = 1, TotalTransfers = 1, TotalFees = 1,
         PaymentsSum = f64_frac 201 1, TransfersSum = f64_zero, FeesSum = f64_frac 2 0,
         NetLiquidity = f64_frac 205 1\<rparr>
   \<and> calculateSummary_part_000 scenario_Sscanf scenario
      = \<lparr>TotalTransactions = 3, TotalPayments = 1, TotalTransfers = 1, TotalFees = 1,
         PaymentsSum = f64_frac 201 1, TransfersSum = f64_zero, FeesSum = f64_frac 2 0,
         NetLiquidity = f64_frac 205 1\<rparr>"
proof -
  have h1: "scenario_Sscanf ''100.50'' f64_zero = (1, None, f64_frac 201 1)"
    by (simp add: scenario_Sscanf_def Sscanf_table_def)
  have h2: "scenario_Sscanf ''2.00'' f64_zero = (1, None, f64_frac 2 0)"
    by (simp add: scenario_Sscanf_def Sscanf_table_def)
  have h3: "scan_failed (scenario_Sscanf ''oops'' f64_zero)"
    by (simp add: scenario_Sscanf_def Sscanf_table_def scan_failed_def)
  have h4: "snd (snd (scenario_Sscanf ''oops'' f64_zero)) = f64_zero"
    by (simp add: scenario_Sscanf_def Sscanf_table_def)
  show ?thesis
    using h1 h2 h3 h4 scenario_summary [where scanf = scenario_Sscanf, OF h1 h2 h3] by simp
qed

text \<open>
  C10. The two versions of \<^verbatim>\<open>calculateSummary\<close>, the one that tests the result of
  \<^verbatim>\<open>Sscanf\<close> and resets the amount and the one that relies on the zero-initialized
  amount, return equal statistics for every list, given what the second relies on: a
  failed \<^verbatim>\<open>Sscanf\<close> leaves its operand as it was.
\<close>

theorem calculateSummary_versions_equal:
  "stores_only_on_success scanf \<Longrightarrow>
     calculateSummary_part_000 scanf txns = calculateSummary scanf txns"
  by (simp add: calculateSummary_def calculateSummary_part_000_def scan_amount_part_000_eq)

theorem calculateSummary_versions_equal_witness:
  "stores_only_on_success scenario_Sscanf
   \<and> calculateSummary_part_000 scenario_Sscanf scenario
       = calculateSummary scenario_Sscanf scenario"
proof -
  have stores: "stores_only_on_success scenario_Sscanf"
    by (simp add: scenario_Sscanf_def Sscanf_table_stores_only_on_success)
  show ?thesis
    using stores calculateSummary_versions_equal [where scanf = scenario_Sscanf, OF stores, of scenario]
    by simp
qed

section \<open>The ledger page\<close>

lemma escape_char_no_markup:
  "CHR ''<'' \<notin> set (escape_char c)" "CHR ''>'' \<notin> set (escape_char c)"
  "CHR 0x22 \<notin> set (escape_char c)" "CHR 0x27 \<notin> set (escape_char c)"
  by (simp_all add: escape_char_def)

lemma EscapeString_no_markup:
  "CHR ''<'' \<notin> set (EscapeString s)" "CHR ''>'' \<notin> set (EscapeString s)"
  "CHR 0x22 \<notin> set (EscapeString s)" "CHR 0x27 \<notin> set (EscapeString s)"
  by (induction s; simp add: escape_char_no_markup)+

lemma ampersands_escaped_escape_char:
  "ampersands_escaped rest \<Longrightarrow> ampersands_escaped (escape_char c @ rest)"
  by (simp add: escape_char_def entity_at_def)

lemma EscapeString_ampersands: "ampersands_escaped (EscapeString s)"
  by (induction s) (simp_all add: ampersands_escaped_escape_char)

lemma ledger_path: "Join [''ledger'', ''FK_MASTER_LEDGER.md''] = ''ledger/FK_MASTER_LEDGER.md''"
  by (simp add: Join_def Clean_def clean_elem_def)

text \<open>
  C8. \<^verbatim>\<open>markdownToHTML\<close> returns the opening tag of the \<open>ledger-content\<close> division, the
  HTML-escaped input and the closing tag; the escaped input contains none of the
  characters \<open><\<close>, \<open>>\<close>, \<open>"\<close> and \<open>'\<close>, and every \<open>&\<close> in it starts a character
  reference; and what \<^verbatim>\<open>LedgerHandler\<close> hands to the template as \<^verbatim>\<open>LedgerContent\<close>
  for a ledger file with the content \<open>md\<close> is \<^verbatim>\<open>markdownToHTML\<close> of it.
\<close>

theorem markdownToHTML_escapes:
  "markdownToHTML md
     = ''<div class='' @ [CHR 0x22] @ ''ledger-content'' @ [CHR 0x22] @ ''>''
         @ EscapeString md @ ''</div>''
   \<and> CHR ''<'' \<notin> set (EscapeString md) \<and> CHR ''>'' \<notin> set (EscapeString md)
   \<and> CHR 0x22 \<notin> set (EscapeString md) \<and> CHR 0x27 \<notin> set (EscapeString md)
   \<and> ampersands_escaped (EscapeString md)
   \<and> fst (LedgerHandler key (\<lambda>path. Inr md) (\<lambda>name. Inr t) execute)
       = ExecuteTemplate t ''base''
           \<lparr>google_analytics_key = key, LedgerContent = markdownToHTML md\<rparr>"
  by (simp add: markdownToHTML_def EscapeString_no_markup EscapeString_ampersands
        LedgerHandler_def Let_def)

text \<open>
  The part of C7 that \<^verbatim>\<open>LedgerHandler\<close> meets: when the ledger file does not exist and
  the template loads, the response is the page with the placeholder, not a failure.
\<close>

lemma LedgerHandler_absent_file:
  "fst (LedgerHandler key absent_ledger (\<lambda>name. Inr t) execute)
     = ExecuteTemplate t ''base''
         \<lparr>google_analytics_key = key, LedgerContent = markdownToHTML no_ledger_message\<rparr>"
  by (simp add: LedgerHandler_def absent_ledger_def Let_def)

text \<open>
  C7 asks that a hard error of reading the ledger file is shown as a failure of its
  own and not as the placeholder. \<^verbatim>\<open>LedgerHandler\<close> does not do that: the comment over
  the substitution reads \<^verbatim>\<open>If file doesn't exist, show a message\<close>, but the test is
  \<^verbatim>\<open>err != nil\<close>, so for a ledger file that exists and cannot be read (permission
  denied) the handler executes the template on the placeholder, the same response as
  for a file that does not exist, where a failing template load is answered with the
  status 500.
\<close>

theorem LedgerHandler_hard_error_is_placeholder:
  "fst (LedgerHandler ''UA-1'' unreadable_ledger (\<lambda>name. Inr ()) (\<lambda>t data. None))
     = ExecuteTemplate () ''base''
         \<lparr>google_analytics_key = ''UA-1'', LedgerContent = markdownToHTML no_ledger_message\<rparr>
   \<and> fst (LedgerHandler ''UA-1'' unreadable_ledger (\<lambda>name. Inr ()) (\<lambda>t data. None))
     = fst (LedgerHandler ''UA-1'' absent_ledger (\<lambda>name. Inr ()) (\<lambda>t data. None))
   \<and> fst (LedgerHandler ''UA-1'' unreadable_ledger (\<lambda>name. Inl ErrPermission)
          (\<lambda>t data. None))
     = (HttpError ErrPermission 500 :: unit response)"
  by (simp add: LedgerHandler_def ledger_path unreadable_ledger_def absent_ledger_def)

section \<open>The categories\<close>

lemma mset_three_filters:
  assumes "\<forall>t \<in> set txns. recognized (Type t)"
  shows "mset (filter (\<lambda>t. Type t = PaymentTransaction) txns)
           + mset (filter (\<lambda>t. Type t = TransferTransaction) txns)
           + mset (filter (\<lambda>t. Type t = FeeTransaction) txns) = mset txns"
  using assms
proof (induction txns)
  case Nil
  show ?case by simp
next
  case (Cons t txns)
  then show ?case by (cases "Type t") (simp_all add: recognized_def)
qed

lemma index_map_CategorizeTransactions:
  "index_map (CategorizeTransactions txns) ty = filter (\<lambda>t. Type t = ty) txns"
  by (simp add: index_map_def CategorizeTransactions_def Let_def)

text \<open>
  C6. For a list in which every transaction has a recognized type, the sub-lists that
  the handlers take from the result of \<^verbatim>\<open>CategorizeTransactions\<close>, in the order
  Payments, Transfers, Fees, hold together exactly the transactions of the input, each
  as often as the input does; the sub-list of every type is the input filtered by
  that type, so it keeps the order of the input; and a type that does not occur in
  the input has no entry, for which the handlers get the empty list.
\<close>

theorem CategorizeTransactions_partition:
  assumes "\<forall>t \<in> set txns. recognized (Type t)"
  shows "mset (concat (map snd (transactionData (CategorizeTransactions txns)))) = mset txns
    \<and> index_map (CategorizeTransactions txns) ty = filter (\<lambda>t. Type t = ty) txns
    \<and> subseq (index_map (CategorizeTransactions txns) ty) txns
    \<and> (ty \<notin> Type ` set txns \<longrightarrow>
         CategorizeTransactions txns ty = None \<and> index_map (CategorizeTransactions txns) ty = [])"
proof -
  have "mset (concat (map snd (transactionData (CategorizeTransactions txns)))) = mset txns"
    using mset_three_filters [OF assms]
    by (simp add: transactionData_def index_map_CategorizeTransactions add.assoc)
  moreover have "filter (\<lambda>t. Type t = ty) txns = []" if "ty \<notin> Type ` set txns"
    using that by (auto simp: filter_empty_conv)
  ultimately show ?thesis
    by (simp add: index_map_CategorizeTransactions) (simp add: CategorizeTransactions_def)
qed

theorem CategorizeTransactions_partition_witness:
  "list_all (\<lambda>t. recognized (Type t)) scenario
   \<and> mset (concat (map snd (transactionData (CategorizeTransactions scenario)))) = mset scenario
   \<and> map snd (transactionData (CategorizeTransactions scenario))
       = [[\<lparr>TransactionID = ''T1'', Amount = ''100.50'', Type = PaymentTransaction\<rparr>],
          [\<lparr>TransactionID = ''T3'', Amount = ''oops'', Type = TransferTransaction\<rparr>],
          [\<lparr>TransactionID = ''T2'', Amount = ''2.00'', Type = FeeTransaction\<rparr>]]
   \<and> OtherTransaction ''refund'' \<notin> Type ` set scenario
   \<and> CategorizeTransactions scenario (OtherTransaction ''refund'') = None"
proof -
  have rec: "\<forall>t \<in> set scenario. recognized (Type t)"
    by (simp add: scenario_def recognized_def)
  have absent: "OtherTransaction ''refund'' \<notin> Type ` set scenario"
    by (simp add: scenario_def)
  show ?thesis
    using absent CategorizeTransactions_partition [OF rec, of "OtherTransaction ''refund''"]
    by (simp add: scenario_def recognized_def transactionData_def index_map_def
          CategorizeTransactions_def)
qed

section \<open>The ledger writer\<close>

lemma ReadCSVFiles_ledger_dir [simp]:
  "ReadCSVFiles parse (dirs\<lparr>ledger_dir := l\<rparr>) = ReadCSVFiles parse dirs"
  by (simp add: ReadCSVFiles_def)

text \<open>
  C5. Running the ledger writer a second time on the directories that the first run
  left returns the same result and leaves the same directories, so the snapshot file
  is the same byte for byte; and after a successful run the snapshot is the document
  rendered from the transactions of the vault, whatever the ledger directory held
  under the snapshot's name before.
\<close>

theorem Run_idempotent_and_replacing:
  "Run parse render (snd (Run parse render dirs)) = Run parse render dirs
   \<and> (ReadCSVFiles parse dirs = Inr txns \<longrightarrow>
        Run parse render (dirs\<lparr>ledger_dir := Inr (files(''FK_MASTER_LEDGER.md'' \<mapsto> old))\<rparr>)
          = (None, dirs\<lparr>ledger_dir := Inr (files(''FK_MASTER_LEDGER.md'' \<mapsto> render txns))\<rparr>))"
  by (simp add: Run_def split: sum.splits)

theorem Run_idempotent_and_replacing_witness:
  "ReadCSVFiles (\<lambda>rows. Inr scenario)
       \<lparr>vault_dir = Inr [(''2026.csv'', ''rows'')], ledger_dir = Inr Map.empty\<rparr> = Inr scenario
   \<and> Run (\<lambda>rows. Inr scenario) (\<lambda>txns. concat (map TransactionID txns))
        (\<lparr>vault_dir = Inr [(''2026.csv'', ''rows'')], ledger_dir = Inr Map.empty\<rparr>
           \<lparr>ledger_dir := Inr (Map.empty(''FK_MASTER_LEDGER.md'' \<mapsto> ''stale''))\<rparr>)
       = (None,
          \<lparr>vault_dir = Inr [(''2026.csv'', ''rows'')], ledger_dir = Inr Map.empty\<rparr>
            \<lparr>ledger_dir := Inr (Map.empty(''FK_MASTER_LEDGER.md'' \<mapsto> ''T1T2T3''))\<rparr>)
   \<and> Run (\<lambda>rows. Inr scenario) (\<lambda>txns. concat (map TransactionID txns))
        (snd (Run (\<lambda>rows. Inr scenario) (\<lambda>txns. concat (map TransactionID txns))
           \<lparr>vault_dir = Inr [(''2026.csv'', ''rows'')], ledger_dir = Inr Map.empty\<rparr>))
       = Run (\<lambda>rows. Inr scenario) (\<lambda>txns. concat (map TransactionID txns))
           \<lparr>vault_dir = Inr [(''2026.csv'', ''rows'')], ledger_dir = Inr Map.empty\<rparr>"
proof -
  have read: "ReadCSVFiles (\<lambda>rows. Inr scenario)
       \<lparr>vault_dir = Inr [(''2026.csv'', ''rows'')], ledger_dir = Inr Map.empty\<rparr> = Inr scenario"
    by (simp add: ReadCSVFiles_def)
  have doc: "concat (map TransactionID scenario) = ''T1T2T3''"
    by (simp add: scenario_def)
  from read doc
    Run_idempotent_and_replacing [where parse = "\<lambda>rows. Inr scenario"
      and render = "\<lambda>txns. concat (map TransactionID txns)"
      and dirs = "\<lparr>vault_dir = Inr [(''2026.csv'', ''rows'')], ledger_dir = Inr Map.empty\<rparr>"
      and txns = scenario and files = Map.empty and old = "''stale''"]
  show ?thesis by simp
qed

section \<open>Paths\<close>

subsection \<open>Splitting and joining\<close>

lemma split_path_not_Nil [simp]: "split_path s \<noteq> []"
  by (induction s) (simp_all split: list.splits)

lemma split_path_no_slash: "e \<in> set (split_path s) \<Longrightarrow> CHR ''/'' \<notin> set e"
proof (induction s arbitrary: e)
  case Nil
  then show ?case by simp
next
  case (Cons c cs)
  then show ?case
    by (cases "split_path cs") (auto split: if_splits)
qed

lemma split_path_element: "CHR ''/'' \<notin> set e \<Longrightarrow> split_path e = [e]"
  by (induction e) auto

lemma split_path_element_slash:
  "CHR ''/'' \<notin> set e \<Longrightarrow> split_path (e @ CHR ''/'' # rest) = e # split_path rest"
  by (induction e) auto

lemma split_join_path:
  "es \<noteq> [] \<Longrightarrow> \<forall>e \<in> set es. CHR ''/'' \<notin> set e \<Longrightarrow> split_path (join_path es) = es"
proof (induction es rule: join_path.induct)
  case 1
  then show ?case by simp
next
  case (2 e)
  then show ?case by (simp add: split_path_element)
next
  case (3 e e' es)
  then show ?case by (simp add: split_path_element_slash)
qed

lemma join_path_hd:
  "es \<noteq> [] \<Longrightarrow> hd es \<noteq> [] \<Longrightarrow> join_path es \<noteq> [] \<and> hd (join_path es) = hd (hd es)"
  by (induction es rule: join_path.induct) simp_all

subsection \<open>The elements that Clean keeps\<close>

lemma dotdot_first_snoc:
  "dotdot_first (out @ [e]) \<longleftrightarrow> dotdot_first out \<and> (e = ''..'' \<longrightarrow> set out \<subseteq> {''..''})"
  by (induction out) auto

lemma dotdot_first_butlast: "dotdot_first out \<Longrightarrow> dotdot_first (butlast out)"
  by (induction out) (auto dest: in_set_butlastD)

lemma dotdot_first_before:
  "dotdot_first (pre @ e # es) \<Longrightarrow> e = ''..'' \<Longrightarrow> set pre \<subseteq> {''..''}"
  by (induction pre) (auto split: if_splits)

lemma dotdot_first_last:
  assumes "dotdot_first out" "out \<noteq> []" "last out = ''..''"
  shows "set out \<subseteq> {''..''}"
proof -
  from assms(2) have "out = butlast out @ [last out]" by simp
  with assms(1,3) have "dotdot_first (butlast out @ [''..''])" by metis
  then have "set (butlast out) \<subseteq> {''..''}" by (simp add: dotdot_first_snoc)
  moreover from assms(2) have "set out = set (butlast out) \<union> {last out}"
    by (metis append_butlast_last_id set_append list.set(1) list.set(2))
  ultimately show ?thesis using assms(3) by auto
qed

lemma cleaned_elems_Nil [simp]: "cleaned_elems rooted []"
  by (simp add: cleaned_elems_def)

lemma cleaned_elems_clean_elem:
  assumes "cleaned_elems rooted out" "CHR ''/'' \<notin> set e"
  shows "cleaned_elems rooted (clean_elem rooted out e)"
proof -
  consider (skipped) "e = [] \<or> e = ''.''"
    | (removed) "e = ''..''" "out \<noteq> []" "last out \<noteq> ''..''"
    | (kept) "e = ''..''" "\<not> (out \<noteq> [] \<and> last out \<noteq> ''..'')" "\<not> rooted"
    | (dropped) "e = ''..''" "\<not> (out \<noteq> [] \<and> last out \<noteq> ''..'')" "rooted"
    | (appended) "e \<noteq> []" "e \<noteq> ''.''" "e \<noteq> ''..''"
    by blast
  then show ?thesis
  proof cases
    case skipped
    with assms show ?thesis by (auto simp: clean_elem_def)
  next
    case removed
    then have "clean_elem rooted out e = butlast out" by (simp add: clean_elem_def)
    with assms(1) show ?thesis
      by (auto simp: cleaned_elems_def dotdot_first_butlast dest: in_set_butlastD)
  next
    case kept
    then have ce: "clean_elem rooted out e = out @ [''..'']" by (auto simp: clean_elem_def)
    from kept(2) assms(1) have "set out \<subseteq> {''..''}"
      by (cases "out = []") (auto simp: cleaned_elems_def dest: dotdot_first_last)
    with assms(1) kept(3) show ?thesis
      unfolding ce by (auto simp: cleaned_elems_def dotdot_first_snoc)
  next
    case dropped
    then have "clean_elem rooted out e = out" by (auto simp: clean_elem_def)
    with assms(1) show ?thesis by simp
  next
    case appended
    then have "clean_elem rooted out e = out @ [e]" by (simp add: clean_elem_def)
    with assms appended show ?thesis
      by (auto simp: cleaned_elems_def dotdot_first_snoc)
  qed
qed

lemma cleaned_elems_foldl:
  "cleaned_elems rooted out \<Longrightarrow> \<forall>e \<in> set es. CHR ''/'' \<notin> set e \<Longrightarrow>
     cleaned_elems rooted (foldl (clean_elem rooted) out es)"
  by (induction es arbitrary: out) (simp_all add: cleaned_elems_clean_elem)

lemma cleaned_elems_split_path:
  "cleaned_elems rooted (foldl (clean_elem rooted) [] (split_path path))"
  by (rule cleaned_elems_foldl) (simp_all add: split_path_no_slash)

text \<open>Cleaned elements are left as they are by the loop of \<^verbatim>\<open>Clean\<close>.\<close>

lemma foldl_clean_elem_cleaned:
  "cleaned_elems rooted (pre @ es) \<Longrightarrow> foldl (clean_elem rooted) pre es = pre @ es"
proof (induction es arbitrary: pre)
  case Nil
  then show ?case by simp
next
  case (Cons e es)
  have step: "clean_elem rooted pre e = pre @ [e]"
  proof (cases "e = ''..''")
    case True
    with Cons.prems have "set pre \<subseteq> {''..''}" "\<not> rooted"
      by (auto simp: cleaned_elems_def dest: dotdot_first_before)
    then have "pre = [] \<or> last pre = ''..''"
      using last_in_set by fastforce
    with True \<open>\<not> rooted\<close> show ?thesis by (auto simp: clean_elem_def)
  next
    case False
    with Cons.prems show ?thesis by (auto simp: cleaned_elems_def clean_elem_def)
  qed
  from Cons.prems have "cleaned_elems rooted ((pre @ [e]) @ es)" by simp
  then have "foldl (clean_elem rooted) (pre @ [e]) es = (pre @ [e]) @ es" by (rule Cons.IH)
  with step show ?case by simp
qed

subsection \<open>Clean, Join and Abs\<close>

lemma Clean_dot [simp]: "Clean ''.'' = ''.''"
  by (simp add: Clean_def clean_elem_def)

lemma Clean_idem: "Clean (Clean path) = Clean path"
proof (cases "path = []")
  case True
  then show ?thesis by (simp add: Clean_def [of "[]"])
next
  case False
  define rooted where "rooted = (hd path = CHR ''/'')"
  define out where "out = foldl (clean_elem rooted) [] (split_path path)"
  have cleaned: "cleaned_elems rooted out"
    unfolding out_def by (rule cleaned_elems_split_path)
  then have no_slash: "\<forall>e \<in> set out. CHR ''/'' \<notin> set e"
    by (simp add: cleaned_elems_def)
  have again: "foldl (clean_elem rooted) [] out = out"
    using foldl_clean_elem_cleaned [of rooted "[]" out] cleaned by simp
  show ?thesis
  proof (cases rooted)
    case True
    with False have c: "Clean path = CHR ''/'' # join_path out"
      by (simp add: Clean_def rooted_def out_def)
    have "foldl (clean_elem True) [] (split_path (CHR ''/'' # join_path out)) = out"
    proof (cases "out = []")
      case True
      then show ?thesis by (simp add: clean_elem_def)
    next
      case False
      with no_slash have "split_path (join_path out) = out" by (simp add: split_join_path)
      with again \<open>rooted\<close> show ?thesis by (simp add: clean_elem_def)
    qed
    then show ?thesis by (simp add: c Clean_def [of "CHR ''/'' # join_path out"])
  next
    case not_rooted: False
    show ?thesis
    proof (cases "out = []")
      case True
      with False not_rooted have "Clean path = ''.''"
        by (simp add: Clean_def rooted_def out_def)
      then show ?thesis by simp
    next
      case out: False
      with False not_rooted have c: "Clean path = join_path out"
        by (simp add: Clean_def rooted_def out_def)
      from out cleaned have "hd out \<noteq> []" "CHR ''/'' \<notin> set (hd out)"
        by (simp_all add: cleaned_elems_def)
      moreover from this have "hd (hd out) \<noteq> CHR ''/''"
        by (metis hd_in_set)
      ultimately have j: "join_path out \<noteq> []" "hd (join_path out) \<noteq> CHR ''/''"
        using join_path_hd [of out] out by auto
      from out no_slash have "split_path (join_path out) = out" by (simp add: split_join_path)
      with again not_rooted out j show ?thesis
        by (simp add: c Clean_def [of "join_path out"])
    qed
  qed
qed

lemma IsAbs_Clean: "IsAbs path \<Longrightarrow> IsAbs (Clean path)"
  by (simp add: IsAbs_def Clean_def Let_def)

lemma Abs_absolute_clean:
  assumes "Abs os path = Inr absPath"
    and "\<And>wd. Getwd os = Inr wd \<Longrightarrow> IsAbs wd"
  shows "IsAbs absPath \<and> Clean absPath = absPath"
proof (cases "IsAbs path")
  case True
  with assms(1) have "absPath = Clean path" by (simp add: Abs_def)
  with True show ?thesis by (simp add: IsAbs_Clean Clean_idem)
next
  case False
  with assms(1) obtain wd where wd: "Getwd os = Inr wd" "absPath = Join [wd, path]"
    by (auto simp: Abs_def split: sum.splits)
  from wd(1) have abs: "IsAbs wd" by (rule assms(2))
  then have "absPath = Clean (wd @ CHR ''/'' # path)"
    by (simp add: wd(2) Join_def IsAbs_def)
  moreover from abs have "IsAbs (wd @ CHR ''/'' # path)" by (simp add: IsAbs_def)
  ultimately show ?thesis by (simp add: IsAbs_Clean Clean_idem)
qed

lemma Abs_succeeds: "Getwd os = Inr wd \<Longrightarrow> \<exists>absPath. Abs os path = Inr absPath"
  by (simp add: Abs_def)

section \<open>Theorems about getEnvOrDefault\<close>

lemma join_path_cleaned_not_rooted:
  assumes "cleaned_elems rooted out" "out \<noteq> []"
  shows "join_path out \<noteq> [] \<and> hd (join_path out) \<noteq> CHR ''/''"
proof -
  from assms have "hd out \<noteq> []" "CHR ''/'' \<notin> set (hd out)"
    by (simp_all add: cleaned_elems_def)
  moreover from this have "hd (hd out) \<noteq> CHR ''/''"
    by (metis hd_in_set)
  ultimately show ?thesis
    using join_path_hd [of out] assms(2) by auto
qed

lemma IsAbs_Clean_iff: "IsAbs (Clean path) \<longleftrightarrow> IsAbs path"
proof (cases "IsAbs path")
  case True
  then show ?thesis by (simp add: IsAbs_Clean)
next
  case False
  have "\<not> IsAbs (Clean path)"
  proof (cases "path = []")
    case True
    then show ?thesis by (simp add: Clean_def IsAbs_def)
  next
    case nonempty: False
    define out where "out = foldl (clean_elem False) [] (split_path path)"
    have cleaned: "cleaned_elems False out"
      unfolding out_def by (rule cleaned_elems_split_path)
    from False nonempty have "Clean path = (if out = [] then ''.'' else join_path out)"
      by (simp add: Clean_def IsAbs_def out_def)
    with join_path_cleaned_not_rooted [OF cleaned] show ?thesis
      by (auto simp: IsAbs_def)
  qed
  with False show ?thesis by simp
qed

lemma Join_wd_absolute_clean:
  assumes "IsAbs wd"
  shows "IsAbs (Join [wd, path]) \<and> Clean (Join [wd, path]) = Join [wd, path]"
proof -
  from assms have "Join [wd, path] = Clean (wd @ CHR ''/'' # path)"
    by (simp add: Join_def IsAbs_def)
  moreover from assms have "IsAbs (wd @ CHR ''/'' # path)" by (simp add: IsAbs_def)
  ultimately show ?thesis by (simp add: IsAbs_Clean Clean_idem)
qed

lemma getEnvOrDefault_configured:
  "getEnvOrDefault os name d
     = (case Abs os (Clean (configured_value os name d)) of
          Inl err \<Rightarrow> configured_value os name d
        | Inr absPath \<Rightarrow> absPath)"
  by (auto simp: getEnvOrDefault_def configured_value_def Let_def split: sum.splits)

text \<open>
  Where the second file differs from \<^verbatim>\<open>handlers/bookkeeping.go\<close>: it returns a value of
  the environment variable as it is, where \<^verbatim>\<open>handlers/bookkeeping.go\<close> passes it
  through \<^verbatim>\<open>filepath.Clean\<close> and \<^verbatim>\<open>filepath.Abs\<close>.
\<close>

lemma getEnvOrDefault_part_000_set_variable:
  "getEnvOrDefault_part_000 sample_process ''VAULT_DIR'' ''vault'' = ''data/../vault/''
   \<and> getEnvOrDefault sample_process ''VAULT_DIR'' ''vault'' = ''/srv/app/vault''"
  by (simp add: getEnvOrDefault_part_000_def getEnvOrDefault_def sample_process_def
        Getenv_def Abs_def IsAbs_def Join_def Clean_def clean_elem_def)

text \<open>
  C9 does not hold as the specification states it: in \<^verbatim>\<open>handlers/bookkeeping.go\<close>, when
  \<^verbatim>\<open>filepath.Abs\<close> fails because the working directory cannot be determined, the
  guard \<^verbatim>\<open>if err != nil\<close> returns the relative default as it is.
\<close>

theorem getEnvOrDefault_returns_relative_path:
  "getEnvOrDefault lost_wd_process ''VAULT_DIR'' ''vault'' = ''vault''
   \<and> \<not> IsAbs ''vault''"
  by (simp add: getEnvOrDefault_def lost_wd_process_def Getenv_def Abs_def IsAbs_def
        Clean_def clean_elem_def)

text \<open>
  C9, amended. Let the configured value be the value of the environment variable when
  it is not empty and the default otherwise. When the configured value is absolute, or
  the working directory is known (\<^verbatim>\<open>os.Getwd\<close> returns a rooted path),
  \<^verbatim>\<open>getEnvOrDefault\<close> of \<^verbatim>\<open>handlers/bookkeeping.go\<close> returns the absolute, cleaned path of
  the configured value: the cleaned value itself when it is absolute, and the cleaned
  value joined to the working directory otherwise. When the variable is empty, the
  second file returns in the same way the absolute, cleaned path of the default. When
  \<^verbatim>\<open>os.Getwd\<close> fails and the configured value is not absolute,
  \<^verbatim>\<open>getEnvOrDefault\<close> of \<^verbatim>\<open>handlers/bookkeeping.go\<close> returns the configured value
  unchanged.
\<close>

theorem getEnvOrDefault_normalises:
  "(IsAbs (configured_value os name d) \<or> (Getwd os = Inr wd \<and> IsAbs wd) \<longrightarrow>
      getEnvOrDefault os name d
        = (if IsAbs (configured_value os name d) then Clean (configured_value os name d)
           else Join [wd, Clean (configured_value os name d)])
      \<and> IsAbs (getEnvOrDefault os name d)
      \<and> Clean (getEnvOrDefault os name d) = getEnvOrDefault os name d)
   \<and> (Getenv os name = [] \<and> (IsAbs d \<or> (Getwd os = Inr wd \<and> IsAbs wd)) \<longrightarrow>
      getEnvOrDefault_part_000 os name d = (if IsAbs d then Clean d else Join [wd, d])
      \<and> IsAbs (getEnvOrDefault_part_000 os name d)
      \<and> Clean (getEnvOrDefault_part_000 os name d) = getEnvOrDefault_part_000 os name d)
   \<and> (Getwd os = Inl err \<and> \<not> IsAbs (configured_value os name d) \<longrightarrow>
      getEnvOrDefault os name d = configured_value os name d)"
proof -
  define v where "v = configured_value os name d"
  have first: "getEnvOrDefault os name d = (if IsAbs v then Clean v else Join [wd, Clean v])
      \<and> IsAbs (getEnvOrDefault os name d)
      \<and> Clean (getEnvOrDefault os name d) = getEnvOrDefault os name d"
    if "IsAbs v \<or> (Getwd os = Inr wd \<and> IsAbs wd)"
  proof (cases "IsAbs v")
    case True
    then have "getEnvOrDefault os name d = Clean v"
      by (simp add: getEnvOrDefault_configured v_def [symmetric] Abs_def IsAbs_Clean_iff
            Clean_idem)
    with True show ?thesis by (simp add: IsAbs_Clean Clean_idem)
  next
    case False
    with that have wd: "Getwd os = Inr wd" "IsAbs wd" by simp_all
    from False wd(1) have "getEnvOrDefault os name d = Join [wd, Clean v]"
      by (simp add: getEnvOrDefault_configured v_def [symmetric] Abs_def IsAbs_Clean_iff)
    with False Join_wd_absolute_clean [OF wd(2), of "Clean v"] show ?thesis by simp
  qed
  have second: "getEnvOrDefault_part_000 os name d = (if IsAbs d then Clean d else Join [wd, d])
      \<and> IsAbs (getEnvOrDefault_part_000 os name d)
      \<and> Clean (getEnvOrDefault_part_000 os name d) = getEnvOrDefault_part_000 os name d"
    if empty: "Getenv os name = []" and "IsAbs d \<or> (Getwd os = Inr wd \<and> IsAbs wd)"
  proof (cases "IsAbs d")
    case True
    with empty have "getEnvOrDefault_part_000 os name d = Clean d"
      by (simp add: getEnvOrDefault_part_000_def Abs_def)
    with True show ?thesis by (simp add: IsAbs_Clean Clean_idem)
  next
    case False
    with that have wd: "Getwd os = Inr wd" "IsAbs wd" by simp_all
    from False wd(1) empty have "getEnvOrDefault_part_000 os name d = Join [wd, d]"
      by (simp add: getEnvOrDefault_part_000_def Abs_def)
    with False Join_wd_absolute_clean [OF wd(2), of d] show ?thesis by simp
  qed
  have raw: "getEnvOrDefault os name d = v" if "Getwd os = Inl err" "\<not> IsAbs v"
    using that
    by (simp add: getEnvOrDefault_configured v_def [symmetric] Abs_def IsAbs_Clean_iff)
  from first second raw show ?thesis
    unfolding v_def by blast
qed

theorem getEnvOrDefault_normalises_witness:
  "Getwd sample_process = Inr ''/srv/app'' \<and> IsAbs ''/srv/app''
   \<and> configured_value sample_process ''VAULT_DIR'' ''vault'' = ''data/../vault/''
   \<and> getEnvOrDefault sample_process ''VAULT_DIR'' ''vault''
       = Join [''/srv/app'', Clean ''data/../vault/'']
   \<and> getEnvOrDefault sample_process ''VAULT_DIR'' ''vault'' = ''/srv/app/vault''
   \<and> IsAbs (getEnvOrDefault sample_process ''VAULT_DIR'' ''vault'')
   \<and> Clean (getEnvOrDefault sample_process ''VAULT_DIR'' ''vault'')
       = getEnvOrDefault sample_process ''VAULT_DIR'' ''vault''
   \<and> Getenv sample_process ''LEDGER_DIR'' = []
   \<and> getEnvOrDefault_part_000 sample_process ''LEDGER_DIR'' ''ledger'' = ''/srv/app/ledger''
   \<and> IsAbs (getEnvOrDefault_part_000 sample_process ''LEDGER_DIR'' ''ledger'')
   \<and> Clean (getEnvOrDefault_part_000 sample_process ''LEDGER_DIR'' ''ledger'')
       = getEnvOrDefault_part_000 sample_process ''LEDGER_DIR'' ''ledger''
   \<and> Getwd lost_wd_process = Inl (ErrorString ''getwd: no such file or directory'')
   \<and> configured_value lost_wd_process ''LEDGER_DIR'' ''ledger'' = ''/var//ledger/''
   \<and> IsAbs ''/var//ledger/''
   \<and> getEnvOrDefault lost_wd_process ''LEDGER_DIR'' ''ledger'' = ''/var/ledger''
   \<and> IsAbs (getEnvOrDefault lost_wd_process ''LEDGER_DIR'' ''ledger'')
   \<and> Clean (getEnvOrDefault lost_wd_process ''LEDGER_DIR'' ''ledger'')
       = getEnvOrDefault lost_wd_process ''LEDGER_DIR'' ''ledger''
   \<and> configured_value lost_wd_process ''VAULT_DIR'' ''vault'' = ''vault''
   \<and> \<not> IsAbs ''vault''
   \<and> getEnvOrDefault lost_wd_process ''VAULT_DIR'' ''vault'' = ''vault''"
proof -
  have wd: "Getwd sample_process = Inr ''/srv/app''" "IsAbs ''/srv/app''"
    by (simp_all add: sample_process_def IsAbs_def)
  have env: "Getenv sample_process ''LEDGER_DIR'' = []"
    "configured_value sample_process ''VAULT_DIR'' ''vault'' = ''data/../vault/''"
    "\<not> IsAbs ''data/../vault/''" "\<not> IsAbs ''ledger''"
    by (simp_all add: sample_process_def Getenv_def configured_value_def IsAbs_def)
  have lost: "Getwd lost_wd_process = Inl (ErrorString ''getwd: no such file or directory'')"
    "configured_value lost_wd_process ''LEDGER_DIR'' ''ledger'' = ''/var//ledger/''"
    "IsAbs ''/var//ledger/''"
    "configured_value lost_wd_process ''VAULT_DIR'' ''vault'' = ''vault''"
    "\<not> IsAbs ''vault''"
    by (simp_all add: lost_wd_process_def Getenv_def configured_value_def IsAbs_def)
  have paths: "Join [''/srv/app'', Clean ''data/../vault/''] = ''/srv/app/vault''"
    "Join [''/srv/app'', ''ledger''] = ''/srv/app/ledger''"
    "Clean ''/var//ledger/'' = ''/var/ledger''"
    by (simp_all add: Join_def Clean_def clean_elem_def)
  from wd env lost paths
    getEnvOrDefault_normalises [of sample_process "''VAULT_DIR''" "''vault''" "''/srv/app''"]
    getEnvOrDefault_normalises [of sample_process "''LEDGER_DIR''" "''ledger''" "''/srv/app''"]
    getEnvOrDefault_normalises [of lost_wd_process "''LEDGER_DIR''" "''ledger''" _
      "ErrorString ''getwd: no such file or directory''"]
    getEnvOrDefault_normalises [of lost_wd_process "''VAULT_DIR''" "''vault''" _
      "ErrorString ''getwd: no such file or directory''"]
  show ?thesis by (simp add: IsAbs_def Clean_def clean_elem_def)
qed

end
